theory Spec2Isabelle
  imports Main
begin

section \<open>JavaScript values\<close>

text \<open>
  The storage layer of \<^verbatim>\<open>server/storage.ts\<close> keeps plain JavaScript objects in
  \<^verbatim>\<open>Map<number, T>\<close> containers. The TypeScript types are erased when the program
  runs, and the operations under study (object spread, \<^verbatim>\<open>===\<close>, truthiness,
  \<^verbatim>\<open>instanceof Date\<close>) act on the run-time values, so the embedding works on those.

  Numbers are modelled as integers (identifiers, months, years, time values), with
  \<^verbatim>\<open>NaN\<close> added for the optional filter arguments of the list methods, whose
  truthiness test treats it like 0. Fractions and the loss of precision of a counter
  above \<open>2^53\<close>, which takes as many creates to reach, are outside the model.
  A \<^verbatim>\<open>Date\<close> object is its time value in milliseconds since the epoch, \<open>None\<close>
  being the time value \<^verbatim>\<open>NaN\<close> of an invalid date. Arrays and nested objects (the
  schedule of a class) are left out: no method of the storage looks into them.

  Objects are values here. The storage never changes an object in place (every update
  builds a new object and puts it into the map), so nothing depends on object identity.
  Every method is \<^verbatim>\<open>async\<close> but awaits only its own calls; a method is modelled as one
  step from the storage before the call to the storage after it.
\<close>

datatype jsval =
    Undefined
  | Null
  | Bool bool
  | Num int
  | Str string
  | DateV "int option"

text \<open>An object maps property names to values; a missing key reads as \<^verbatim>\<open>undefined\<close>.\<close>

type_synonym obj = "string \<rightharpoonup> jsval"

definition propGet :: "obj \<Rightarrow> string \<Rightarrow> jsval" where
  "propGet ob k = (case ob k of None \<Rightarrow> Undefined | Some v \<Rightarrow> v)"

text \<open>\<^verbatim>\<open>{ ...a, ...b }\<close>: the properties of \<open>a\<close>, overwritten by every property present in \<open>b\<close>.\<close>

definition spread :: "obj \<Rightarrow> obj \<Rightarrow> obj" where
  "spread a b = a ++ b"

text \<open>
  \<^verbatim>\<open>x === y\<close> on two values. Primitives are equal when they have the same type and
  value. Two \<^verbatim>\<open>Date\<close> objects are equal only when they are the same object; the
  embedding keeps no object identity, and the storage never compares fields that hold
  dates with \<^verbatim>\<open>===\<close>, so such a comparison is modelled as false.
\<close>

fun strictEq :: "jsval \<Rightarrow> jsval \<Rightarrow> bool" where
  "strictEq (DateV _) _ = False"
| "strictEq _ (DateV _) = False"
| "strictEq a b = (a = b)"

text \<open>
  A numeric argument of a list method, as the routes pass it: \<^verbatim>\<open>parseInt\<close> of a query
  value yields an integer, or \<^verbatim>\<open>NaN\<close> when the text is not a number. Identifiers and
  the required class and student arguments are integers here: \<^verbatim>\<open>NaN\<close> is no key of a
  map and \<^verbatim>\<open>===\<close> to no stored value, so with it a method finds or lists nothing.
\<close>

datatype jsnumber = NaN | Finite int

text \<open>
  \<^verbatim>\<open>if (x) { a = f(x, a) }\<close> for an optional numeric argument \<open>x\<close>: the body runs
  when \<open>x\<close> is truthy, and \<^verbatim>\<open>undefined\<close> (the omitted argument), \<^verbatim>\<open>0\<close> and \<^verbatim>\<open>NaN\<close> are
  falsy. In the body \<open>x\<close> is an integer other than 0.
\<close>

definition ifTruthy :: "jsnumber option \<Rightarrow> (int \<Rightarrow> 'a \<Rightarrow> 'a) \<Rightarrow> 'a \<Rightarrow> 'a" where
  "ifTruthy x f a =
     (case x of
        None \<Rightarrow> a
      | Some NaN \<Rightarrow> a
      | Some (Finite n) \<Rightarrow> if n = 0 then a else f n a)"

subsection \<open>Dates\<close>

datatype error = TypeError | RangeError

text \<open>
  \<^verbatim>\<open>new Date(v)\<close> yields a date whose time value depends on the type of \<open>v\<close>: a date is
  copied, a string is parsed, a number is the time value itself when it lies in the
  range of valid time values. Parsing is the built-in \<^verbatim>\<open>Date.parse\<close>; it is a parameter
  of the model (\<open>None\<close> for a string that does not parse).
\<close>

type_synonym dateParse = "string \<Rightarrow> int option"

definition timeClip :: "int \<Rightarrow> int option" where
  "timeClip n = (if \<bar>n\<bar> \<le> 8640000000000000 then Some n else None)"

fun newDate :: "dateParse \<Rightarrow> jsval \<Rightarrow> int option" where
  "newDate parse (DateV tv) = tv"
| "newDate parse (Str s) = parse s"
| "newDate parse (Num n) = timeClip n"
| "newDate parse (Bool b) = Some (if b then 1 else 0)"
| "newDate parse Null = Some 0"
| "newDate parse Undefined = None"

text \<open>
  \<^verbatim>\<open>d.toISOString().split('T')[0]\<close> on a valid date is the text of the UTC calendar date
  of the time value (\<^verbatim>\<open>YYYY-MM-DD\<close> for the years 0 to 9999, a sign and six digits for
  the year otherwise). There is exactly one such text for each UTC day, so two of these
  texts are equal exactly when the days are. The text is represented by the number of
  the day: the time value divided by the milliseconds of a day, rounded down.
\<close>

definition msPerDay :: int where
  "msPerDay = 86400000"

definition isoDate :: "int \<Rightarrow> int" where
  "isoDate t = t div msPerDay"

text \<open>\<^verbatim>\<open>toISOString\<close> of a date object throws a \<^verbatim>\<open>RangeError\<close> on an invalid date.\<close>

fun toISODate :: "int option \<Rightarrow> error + int" where
  "toISODate None = Inl RangeError"
| "toISODate (Some t) = Inr (isoDate t)"

text \<open>
  \<^verbatim>\<open>v.toISOString().split('T')[0]\<close> on a property value \<open>v\<close>: only a date object has
  the method; on any other value the call is a \<^verbatim>\<open>TypeError\<close>.
\<close>

fun valToISODate :: "jsval \<Rightarrow> error + int" where
  "valToISODate (DateV tv) = toISODate tv"
| "valToISODate _ = Inl TypeError"

section \<open>The built-in Map, keyed by numbers\<close>

text \<open>
  A \<^verbatim>\<open>Map\<close> iterates in insertion order: \<^verbatim>\<open>set\<close> on a present key replaces the value
  where it stands, on a new key it appends; \<^verbatim>\<open>delete\<close> reports whether the key was
  present.
\<close>

type_synonym 'v jsmap = "(int \<times> 'v) list"

definition mapGet :: "'v jsmap \<Rightarrow> int \<Rightarrow> 'v option" where
  "mapGet m k = map_of m k"

fun mapSet :: "int \<Rightarrow> 'v \<Rightarrow> 'v jsmap \<Rightarrow> 'v jsmap" where
  "mapSet k v [] = [(k, v)]"
| "mapSet k v (e # m) = (if fst e = k then (k, v) # m else e # mapSet k v m)"

definition mapDelete :: "int \<Rightarrow> 'v jsmap \<Rightarrow> bool \<times> 'v jsmap" where
  "mapDelete k m = (mapGet m k \<noteq> None, filter (\<lambda>e. fst e \<noteq> k) m)"

definition mapValues :: "'v jsmap \<Rightarrow> 'v list" where
  "mapValues m = map snd m"

definition mapKeys :: "'v jsmap \<Rightarrow> int list" where
  "mapKeys m = map fst m"

section \<open>MemStorage\<close>

record MemStorage =
  users :: "obj jsmap"
  schoolYears :: "obj jsmap"
  courses :: "obj jsmap"
  classes :: "obj jsmap"
  students :: "obj jsmap"
  enrollments :: "obj jsmap"
  attendanceRecords :: "obj jsmap"
  payments :: "obj jsmap"
  userId :: int
  schoolYearId :: int
  courseId :: int
  classId :: int
  studentId :: int
  enrollmentId :: int
  attendanceId :: int
  paymentId :: int

text \<open>The fields as the constructor initialises them, before it creates the seed records.\<close>

definition emptyStorage :: MemStorage where
  "emptyStorage = \<lparr> users = [], schoolYears = [], courses = [], classes = [],
     students = [], enrollments = [], attendanceRecords = [], payments = [],
     userId = 1, schoolYearId = 1, courseId = 1, classId = 1,
     studentId = 1, enrollmentId = 1, attendanceId = 1, paymentId = 1 \<rparr>"

text \<open>
  Every \<^verbatim>\<open>create\<close> reads the clock (\<^verbatim>\<open>new Date()\<close>); the reading is the argument
  \<open>now\<close>. The new object is \<^verbatim>\<open>{ ...input, id, createdAt: new Date() }\<close>.
\<close>

subsection \<open>Users\<close>

definition getUser :: "int \<Rightarrow> MemStorage \<Rightarrow> obj option" where
  "getUser i s = mapGet (users s) i"

definition getUserByUsername :: "string \<Rightarrow> MemStorage \<Rightarrow> obj option" where
  "getUserByUsername username s =
     List.find (\<lambda>user. strictEq (propGet user ''username'') (Str username)) (mapValues (users s))"

definition createUser :: "int \<Rightarrow> obj \<Rightarrow> MemStorage \<Rightarrow> obj \<times> MemStorage" where
  "createUser now user s =
     (let i = userId s;
          newUser = user(''id'' \<mapsto> Num i, ''createdAt'' \<mapsto> DateV (Some now))
      in (newUser, s\<lparr> userId := i + 1, users := mapSet i newUser (users s) \<rparr>))"

subsection \<open>School years\<close>

definition getSchoolYears :: "MemStorage \<Rightarrow> obj list" where
  "getSchoolYears s = mapValues (schoolYears s)"

definition getSchoolYear :: "int \<Rightarrow> MemStorage \<Rightarrow> obj option" where
  "getSchoolYear i s = mapGet (schoolYears s) i"

definition createSchoolYear :: "int \<Rightarrow> obj \<Rightarrow> MemStorage \<Rightarrow> obj \<times> MemStorage" where
  "createSchoolYear now schoolYear s =
     (let i = schoolYearId s;
          newSchoolYear = schoolYear(''id'' \<mapsto> Num i, ''createdAt'' \<mapsto> DateV (Some now))
      in (newSchoolYear,
          s\<lparr> schoolYearId := i + 1, schoolYears := mapSet i newSchoolYear (schoolYears s) \<rparr>))"

definition updateSchoolYear :: "int \<Rightarrow> obj \<Rightarrow> MemStorage \<Rightarrow> obj option \<times> MemStorage" where
  "updateSchoolYear i schoolYear s =
     (case mapGet (schoolYears s) i of
        None \<Rightarrow> (None, s)
      | Some existingSchoolYear \<Rightarrow>
          (let updatedSchoolYear = spread existingSchoolYear schoolYear
           in (Some updatedSchoolYear,
               s\<lparr> schoolYears := mapSet i updatedSchoolYear (schoolYears s) \<rparr>)))"

definition deleteSchoolYear :: "int \<Rightarrow> MemStorage \<Rightarrow> bool \<times> MemStorage" where
  "deleteSchoolYear i s =
     (let (existed, m) = mapDelete i (schoolYears s) in (existed, s\<lparr> schoolYears := m \<rparr>))"

subsection \<open>Courses\<close>

definition getCourses :: "jsnumber option \<Rightarrow> MemStorage \<Rightarrow> obj list" where
  "getCourses schoolYearId' s =
     (let cs = mapValues (courses s);
          cs = ifTruthy schoolYearId'
                 (\<lambda>y. filter (\<lambda>course. strictEq (propGet course ''schoolYearId'') (Num y))) cs
      in cs)"

definition getCourse :: "int \<Rightarrow> MemStorage \<Rightarrow> obj option" where
  "getCourse i s = mapGet (courses s) i"

definition createCourse :: "int \<Rightarrow> obj \<Rightarrow> MemStorage \<Rightarrow> obj \<times> MemStorage" where
  "createCourse now course s =
     (let i = courseId s;
          newCourse = course(''id'' \<mapsto> Num i, ''createdAt'' \<mapsto> DateV (Some now))
      in (newCourse, s\<lparr> courseId := i + 1, courses := mapSet i newCourse (courses s) \<rparr>))"

definition updateCourse :: "int \<Rightarrow> obj \<Rightarrow> MemStorage \<Rightarrow> obj option \<times> MemStorage" where
  "updateCourse i course s =
     (case mapGet (courses s) i of
        None \<Rightarrow> (None, s)
      | Some existingCourse \<Rightarrow>
          (let updatedCourse = spread existingCourse course
           in (Some updatedCourse, s\<lparr> courses := mapSet i updatedCourse (courses s) \<rparr>)))"

definition deleteCourse :: "int \<Rightarrow> MemStorage \<Rightarrow> bool \<times> MemStorage" where
  "deleteCourse i s =
     (let (existed, m) = mapDelete i (courses s) in (existed, s\<lparr> courses := m \<rparr>))"

subsection \<open>Classes\<close>

definition getClasses :: "jsnumber option \<Rightarrow> MemStorage \<Rightarrow> obj list" where
  "getClasses courseId' s =
     (let cs = mapValues (classes s);
          cs = ifTruthy courseId'
                 (\<lambda>c. filter (\<lambda>cls. strictEq (propGet cls ''courseId'') (Num c))) cs
      in cs)"

definition getClass :: "int \<Rightarrow> MemStorage \<Rightarrow> obj option" where
  "getClass i s = mapGet (classes s) i"

definition createClass :: "int \<Rightarrow> obj \<Rightarrow> MemStorage \<Rightarrow> obj \<times> MemStorage" where
  "createClass now classData s =
     (let i = classId s;
          newClass = classData(''id'' \<mapsto> Num i, ''createdAt'' \<mapsto> DateV (Some now))
      in (newClass, s\<lparr> classId := i + 1, classes := mapSet i newClass (classes s) \<rparr>))"

definition updateClass :: "int \<Rightarrow> obj \<Rightarrow> MemStorage \<Rightarrow> obj option \<times> MemStorage" where
  "updateClass i classData s =
     (case mapGet (classes s) i of
        None \<Rightarrow> (None, s)
      | Some existingClass \<Rightarrow>
          (let updatedClass = spread existingClass classData
           in (Some updatedClass, s\<lparr> classes := mapSet i updatedClass (classes s) \<rparr>)))"

definition deleteClass :: "int \<Rightarrow> MemStorage \<Rightarrow> bool \<times> MemStorage" where
  "deleteClass i s =
     (let (existed, m) = mapDelete i (classes s) in (existed, s\<lparr> classes := m \<rparr>))"

subsection \<open>Students\<close>

definition getStudents :: "MemStorage \<Rightarrow> obj list" where
  "getStudents s = mapValues (students s)"

definition getStudent :: "int \<Rightarrow> MemStorage \<Rightarrow> obj option" where
  "getStudent i s = mapGet (students s) i"

definition createStudent :: "int \<Rightarrow> obj \<Rightarrow> MemStorage \<Rightarrow> obj \<times> MemStorage" where
  "createStudent now student s =
     (let i = studentId s;
          newStudent = student(''id'' \<mapsto> Num i, ''createdAt'' \<mapsto> DateV (Some now))
      in (newStudent, s\<lparr> studentId := i + 1, students := mapSet i newStudent (students s) \<rparr>))"

text \<open>
  The loop of \<^verbatim>\<open>createManyStudents\<close>, with the array \<^verbatim>\<open>createdStudents\<close> as an
  accumulator that each round appends to. The clock is read once in every round:
  \<open>clock 0\<close> is the reading of the first round of those that remain.
\<close>

fun createManyLoop ::
  "(nat \<Rightarrow> int) \<Rightarrow> obj list \<Rightarrow> obj list \<Rightarrow> MemStorage \<Rightarrow> obj list \<times> MemStorage" where
  "createManyLoop clock [] createdStudents s = (createdStudents, s)"
| "createManyLoop clock (student # rest) createdStudents s =
     (let (newStudent, s') = createStudent (clock 0) student s
      in createManyLoop (\<lambda>n. clock (Suc n)) rest (createdStudents @ [newStudent]) s')"

definition createManyStudents ::
  "(nat \<Rightarrow> int) \<Rightarrow> obj list \<Rightarrow> MemStorage \<Rightarrow> obj list \<times> MemStorage" where
  "createManyStudents clock studentList s = createManyLoop clock studentList [] s"

definition updateStudent :: "int \<Rightarrow> obj \<Rightarrow> MemStorage \<Rightarrow> obj option \<times> MemStorage" where
  "updateStudent i student s =
     (case mapGet (students s) i of
        None \<Rightarrow> (None, s)
      | Some existingStudent \<Rightarrow>
          (let updatedStudent = spread existingStudent student
           in (Some updatedStudent, s\<lparr> students := mapSet i updatedStudent (students s) \<rparr>)))"

definition deleteStudent :: "int \<Rightarrow> MemStorage \<Rightarrow> bool \<times> MemStorage" where
  "deleteStudent i s =
     (let (existed, m) = mapDelete i (students s) in (existed, s\<lparr> students := m \<rparr>))"

subsection \<open>Enrollments\<close>

definition getEnrollments ::
  "jsnumber option \<Rightarrow> jsnumber option \<Rightarrow> MemStorage \<Rightarrow> obj list" where
  "getEnrollments studentId' classId' s =
     (let es = mapValues (enrollments s);
          es = ifTruthy studentId'
                 (\<lambda>n. filter (\<lambda>enrollment. strictEq (propGet enrollment ''studentId'') (Num n))) es;
          es = ifTruthy classId'
                 (\<lambda>n. filter (\<lambda>enrollment. strictEq (propGet enrollment ''classId'') (Num n))) es
      in es)"

definition getEnrollment :: "int \<Rightarrow> MemStorage \<Rightarrow> obj option" where
  "getEnrollment i s = mapGet (enrollments s) i"

text \<open>The creation timestamp of an enrollment is its \<^verbatim>\<open>enrolledAt\<close>.\<close>

definition createEnrollment :: "int \<Rightarrow> obj \<Rightarrow> MemStorage \<Rightarrow> obj \<times> MemStorage" where
  "createEnrollment now enrollment s =
     (let i = enrollmentId s;
          newEnrollment = enrollment(''id'' \<mapsto> Num i, ''enrolledAt'' \<mapsto> DateV (Some now))
      in (newEnrollment,
          s\<lparr> enrollmentId := i + 1, enrollments := mapSet i newEnrollment (enrollments s) \<rparr>))"

definition updateEnrollment :: "int \<Rightarrow> obj \<Rightarrow> MemStorage \<Rightarrow> obj option \<times> MemStorage" where
  "updateEnrollment i enrollment s =
     (case mapGet (enrollments s) i of
        None \<Rightarrow> (None, s)
      | Some existingEnrollment \<Rightarrow>
          (let updatedEnrollment = spread existingEnrollment enrollment
           in (Some updatedEnrollment,
               s\<lparr> enrollments := mapSet i updatedEnrollment (enrollments s) \<rparr>)))"

definition deleteEnrollment :: "int \<Rightarrow> MemStorage \<Rightarrow> bool \<times> MemStorage" where
  "deleteEnrollment i s =
     (let (existed, m) = mapDelete i (enrollments s) in (existed, s\<lparr> enrollments := m \<rparr>))"

subsection \<open>Attendance\<close>

text \<open>
  \<^verbatim>\<open>Array.prototype.filter\<close> and \<^verbatim>\<open>find\<close> with a callback that may throw: the first
  exception ends the call.
\<close>

fun filterE :: "('a \<Rightarrow> error + bool) \<Rightarrow> 'a list \<Rightarrow> error + 'a list" where
  "filterE p [] = Inr []"
| "filterE p (x # xs) =
     (case p x of
        Inl e \<Rightarrow> Inl e
      | Inr b \<Rightarrow>
          (case filterE p xs of
             Inl e \<Rightarrow> Inl e
           | Inr ys \<Rightarrow> Inr (if b then x # ys else ys)))"

fun findE :: "('a \<Rightarrow> error + bool) \<Rightarrow> 'a list \<Rightarrow> error + 'a option" where
  "findE p [] = Inr None"
| "findE p (x # xs) =
     (case p x of
        Inl e \<Rightarrow> Inl e
      | Inr b \<Rightarrow> if b then Inr (Some x) else findE p xs)"

text \<open>\<^verbatim>\<open>v instanceof Date\<close>\<close>

fun instanceofDate :: "jsval \<Rightarrow> bool" where
  "instanceofDate (DateV _) = True"
| "instanceofDate _ = False"

text \<open>
  The callback of the date filter of \<^verbatim>\<open>getAttendance\<close>: the stored date is used as it
  is when it is a date object and converted with \<^verbatim>\<open>new Date\<close> otherwise.
\<close>

definition attendanceOnDate :: "dateParse \<Rightarrow> int \<Rightarrow> obj \<Rightarrow> error + bool" where
  "attendanceOnDate parse dateString attendance =
     (case (if instanceofDate (propGet attendance ''date'')
            then valToISODate (propGet attendance ''date'')
            else toISODate (newDate parse (propGet attendance ''date''))) of
        Inl e \<Rightarrow> Inl e
      | Inr attendanceDate \<Rightarrow> Inr (attendanceDate = dateString))"

text \<open>
  The optional argument \<open>date\<close> is \<open>None\<close> when omitted and \<open>Some tv\<close> for a date object
  with time value \<open>tv\<close>; every date object is truthy, an invalid one too.
\<close>

definition getAttendance ::
  "dateParse \<Rightarrow> int \<Rightarrow> int option option \<Rightarrow> MemStorage \<Rightarrow> error + obj list" where
  "getAttendance parse classId' date s =
     (let attendanceList =
            filter (\<lambda>attendance. strictEq (propGet attendance ''classId'') (Num classId'))
              (mapValues (attendanceRecords s))
      in case date of
           None \<Rightarrow> Inr attendanceList
         | Some tv \<Rightarrow>
             (case toISODate tv of
                Inl e \<Rightarrow> Inl e
              | Inr dateString \<Rightarrow> filterE (attendanceOnDate parse dateString) attendanceList))"

definition getStudentAttendance :: "int \<Rightarrow> jsnumber option \<Rightarrow> MemStorage \<Rightarrow> obj list" where
  "getStudentAttendance studentId' classId' s =
     (let attendanceList =
            filter (\<lambda>attendance. strictEq (propGet attendance ''studentId'') (Num studentId'))
              (mapValues (attendanceRecords s));
          attendanceList = ifTruthy classId'
            (\<lambda>n. filter (\<lambda>attendance. strictEq (propGet attendance ''classId'') (Num n)))
            attendanceList
      in attendanceList)"

definition createAttendance :: "int \<Rightarrow> obj \<Rightarrow> MemStorage \<Rightarrow> obj \<times> MemStorage" where
  "createAttendance now attendance s =
     (let i = attendanceId s;
          newAttendance = attendance(''id'' \<mapsto> Num i, ''createdAt'' \<mapsto> DateV (Some now))
      in (newAttendance,
          s\<lparr> attendanceId := i + 1,
             attendanceRecords := mapSet i newAttendance (attendanceRecords s) \<rparr>))"

definition updateAttendance :: "int \<Rightarrow> obj \<Rightarrow> MemStorage \<Rightarrow> obj option \<times> MemStorage" where
  "updateAttendance i attendance s =
     (case mapGet (attendanceRecords s) i of
        None \<Rightarrow> (None, s)
      | Some existingAttendance \<Rightarrow>
          (let updatedAttendance = spread existingAttendance attendance
           in (Some updatedAttendance,
               s\<lparr> attendanceRecords := mapSet i updatedAttendance (attendanceRecords s) \<rparr>)))"

text \<open>
  The match test of \<^verbatim>\<open>bulkUpdateAttendance\<close>. The operands of \<^verbatim>\<open>&&\<close> are evaluated
  from the left and only as far as needed, and the stored date is converted before the
  input's. The stored date \<^verbatim>\<open>a.date\<close> is sent \<^verbatim>\<open>toISOString\<close> as it is.
\<close>

definition sameAttendance :: "dateParse \<Rightarrow> obj \<Rightarrow> obj \<Rightarrow> error + bool" where
  "sameAttendance parse record a =
     (if strictEq (propGet a ''studentId'') (propGet record ''studentId'') \<and>
         strictEq (propGet a ''classId'') (propGet record ''classId'')
      then (case valToISODate (propGet a ''date'') of
              Inl e \<Rightarrow> Inl e
            | Inr storedDate \<Rightarrow>
                (case toISODate (newDate parse (propGet record ''date'')) of
                   Inl e \<Rightarrow> Inl e
                 | Inr recordDate \<Rightarrow> Inr (storedDate = recordDate)))
      else Inr False)"

text \<open>
  \<^verbatim>\<open>updateAttendance(existingRecord.id, record)\<close>: the first argument is whatever the
  property \<^verbatim>\<open>id\<close> of the stored object holds. The keys of the map are numbers, so a value
  that is not a number finds nothing.
\<close>

definition updateAttendanceAt :: "jsval \<Rightarrow> obj \<Rightarrow> MemStorage \<Rightarrow> obj option \<times> MemStorage" where
  "updateAttendanceAt v record s =
     (case v of Num i \<Rightarrow> updateAttendance i record s | _ \<Rightarrow> (None, s))"

text \<open>
  The loop of \<^verbatim>\<open>bulkUpdateAttendance\<close>, with the array \<^verbatim>\<open>results\<close> as accumulator. An
  exception of the match test leaves the loop; what the earlier rounds stored stays
  stored, so the storage is returned in either case.
\<close>

fun bulkLoop ::
  "dateParse \<Rightarrow> (nat \<Rightarrow> int) \<Rightarrow> obj list \<Rightarrow> obj list \<Rightarrow> MemStorage
     \<Rightarrow> (error + obj list) \<times> MemStorage" where
  "bulkLoop parse clock [] results s = (Inr results, s)"
| "bulkLoop parse clock (record # rest) results s =
     (case findE (sameAttendance parse record) (mapValues (attendanceRecords s)) of
        Inl e \<Rightarrow> (Inl e, s)
      | Inr (Some existingRecord) \<Rightarrow>
          (case updateAttendanceAt (propGet existingRecord ''id'') record s of
             (Some updated, s') \<Rightarrow>
               bulkLoop parse (\<lambda>n. clock (Suc n)) rest (results @ [updated]) s'
           | (None, s') \<Rightarrow> bulkLoop parse (\<lambda>n. clock (Suc n)) rest results s')
      | Inr None \<Rightarrow>
          (let (created, s') = createAttendance (clock 0) record s
           in bulkLoop parse (\<lambda>n. clock (Suc n)) rest (results @ [created]) s'))"

definition bulkUpdateAttendance ::
  "dateParse \<Rightarrow> (nat \<Rightarrow> int) \<Rightarrow> obj list \<Rightarrow> MemStorage \<Rightarrow> (error + obj list) \<times> MemStorage" where
  "bulkUpdateAttendance parse clock records s = bulkLoop parse clock records [] s"

subsection \<open>Payments\<close>

definition getPayments ::
  "jsnumber option \<Rightarrow> jsnumber option \<Rightarrow> jsnumber option \<Rightarrow> jsnumber option
     \<Rightarrow> MemStorage \<Rightarrow> obj list" where
  "getPayments studentId' courseId' month year s =
     (let ps = mapValues (payments s);
          ps = ifTruthy studentId'
                 (\<lambda>n. filter (\<lambda>payment. strictEq (propGet payment ''studentId'') (Num n))) ps;
          ps = ifTruthy courseId'
                 (\<lambda>n. filter (\<lambda>payment. strictEq (propGet payment ''courseId'') (Num n))) ps;
          ps = ifTruthy month
                 (\<lambda>n. filter (\<lambda>payment. strictEq (propGet payment ''month'') (Num n))) ps;
          ps = ifTruthy year
                 (\<lambda>n. filter (\<lambda>payment. strictEq (propGet payment ''year'') (Num n))) ps
      in ps)"

definition getPayment :: "int \<Rightarrow> MemStorage \<Rightarrow> obj option" where
  "getPayment i s = mapGet (payments s) i"

definition createPayment :: "int \<Rightarrow> obj \<Rightarrow> MemStorage \<Rightarrow> obj \<times> MemStorage" where
  "createPayment now payment s =
     (let i = paymentId s;
          newPayment = payment(''id'' \<mapsto> Num i, ''createdAt'' \<mapsto> DateV (Some now))
      in (newPayment, s\<lparr> paymentId := i + 1, payments := mapSet i newPayment (payments s) \<rparr>))"

definition updatePayment :: "int \<Rightarrow> obj \<Rightarrow> MemStorage \<Rightarrow> obj option \<times> MemStorage" where
  "updatePayment i payment s =
     (case mapGet (payments s) i of
        None \<Rightarrow> (None, s)
      | Some existingPayment \<Rightarrow>
          (let updatedPayment = spread existingPayment payment
           in (Some updatedPayment, s\<lparr> payments := mapSet i updatedPayment (payments s) \<rparr>)))"

definition deletePayment :: "int \<Rightarrow> MemStorage \<Rightarrow> bool \<times> MemStorage" where
  "deletePayment i s =
     (let (existed, m) = mapDelete i (payments s) in (existed, s\<lparr> payments := m \<rparr>))"

subsection \<open>The constructor\<close>

text \<open>
  The display name of the seed administrator, in UTF-8, and the two dates of the sample
  school year: \<^verbatim>\<open>new Date("2023-09-01")\<close> and \<^verbatim>\<open>new Date("2024-06-30")\<close> are midnight
  UTC of those days.
\<close>

definition adminName :: string where
  "adminName = [CHR 0xCE, CHR 0x94, CHR 0xCE, CHR 0xB9, CHR 0xCE, CHR 0xB1, CHR 0xCF, CHR 0x87,
     CHR 0xCE, CHR 0xB5, CHR 0xCE, CHR 0xB9, CHR 0xCF, CHR 0x81, CHR 0xCE, CHR 0xB9,
     CHR 0xCF, CHR 0x83, CHR 0xCF, CHR 0x84, CHR 0xCE, CHR 0xAE, CHR 0xCF, CHR 0x82]"

definition seedUser :: obj where
  "seedUser = [''username'' \<mapsto> Str ''admin'', ''password'' \<mapsto> Str ''password'',
     ''name'' \<mapsto> Str adminName, ''isAdmin'' \<mapsto> Bool True]"

definition seedSchoolYear :: obj where
  "seedSchoolYear = [''name'' \<mapsto> Str ''2023-2024'',
     ''startDate'' \<mapsto> DateV (Some 1693526400000),
     ''endDate'' \<mapsto> DateV (Some 1719705600000), ''active'' \<mapsto> Bool True]"

definition newMemStorage :: "int \<Rightarrow> int \<Rightarrow> MemStorage" where
  "newMemStorage now0 now1 =
     snd (createSchoolYear now1 seedSchoolYear (snd (createUser now0 seedUser emptyStorage)))"

section \<open>Histories of calls\<close>

text \<open>
  The methods of \<^verbatim>\<open>IStorage\<close> that write to the storage, as calls, with the clock
  reading of each \<^verbatim>\<open>create\<close>, and what a call returns. The reading methods leave the
  storage as it is, and the two bulk methods act on the maps only through
  \<^verbatim>\<open>createStudent\<close>, \<^verbatim>\<open>createAttendance\<close> and \<^verbatim>\<open>updateAttendance\<close>, so a history of the
  storage is a list of the calls below.
\<close>

datatype entity = User | SchoolYear | Course | Class | Student | Enrollment | Attendance | Payment

datatype call =
    CreateUser int obj
  | CreateSchoolYear int obj | UpdateSchoolYear int obj | DeleteSchoolYear int
  | CreateCourse int obj | UpdateCourse int obj | DeleteCourse int
  | CreateClass int obj | UpdateClass int obj | DeleteClass int
  | CreateStudent int obj | UpdateStudent int obj | DeleteStudent int
  | CreateEnrollment int obj | UpdateEnrollment int obj | DeleteEnrollment int
  | CreateAttendance int obj | UpdateAttendance int obj
  | CreatePayment int obj | UpdatePayment int obj | DeletePayment int

datatype ret =
    Created obj
  | Updated "obj option"
  | Deleted bool

definition created :: "obj \<times> MemStorage \<Rightarrow> ret \<times> MemStorage" where
  "created r = (Created (fst r), snd r)"

definition updated :: "obj option \<times> MemStorage \<Rightarrow> ret \<times> MemStorage" where
  "updated r = (Updated (fst r), snd r)"

definition deleted :: "bool \<times> MemStorage \<Rightarrow> ret \<times> MemStorage" where
  "deleted r = (Deleted (fst r), snd r)"

primrec exec :: "call \<Rightarrow> MemStorage \<Rightarrow> ret \<times> MemStorage" where
  "exec (CreateUser now x) s = created (createUser now x s)"
| "exec (CreateSchoolYear now x) s = created (createSchoolYear now x s)"
| "exec (UpdateSchoolYear i x) s = updated (updateSchoolYear i x s)"
| "exec (DeleteSchoolYear i) s = deleted (deleteSchoolYear i s)"
| "exec (CreateCourse now x) s = created (createCourse now x s)"
| "exec (UpdateCourse i x) s = updated (updateCourse i x s)"
| "exec (DeleteCourse i) s = deleted (deleteCourse i s)"
| "exec (CreateClass now x) s = created (createClass now x s)"
| "exec (UpdateClass i x) s = updated (updateClass i x s)"
| "exec (DeleteClass i) s = deleted (deleteClass i s)"
| "exec (CreateStudent now x) s = created (createStudent now x s)"
| "exec (UpdateStudent i x) s = updated (updateStudent i x s)"
| "exec (DeleteStudent i) s = deleted (deleteStudent i s)"
| "exec (CreateEnrollment now x) s = created (createEnrollment now x s)"
| "exec (UpdateEnrollment i x) s = updated (updateEnrollment i x s)"
| "exec (DeleteEnrollment i) s = deleted (deleteEnrollment i s)"
| "exec (CreateAttendance now x) s = created (createAttendance now x s)"
| "exec (UpdateAttendance i x) s = updated (updateAttendance i x s)"
| "exec (CreatePayment now x) s = created (createPayment now x s)"
| "exec (UpdatePayment i x) s = updated (updatePayment i x s)"
| "exec (DeletePayment i) s = deleted (deletePayment i s)"

text \<open>A history runs its calls in order; it yields what each call returned and the last storage.\<close>

fun run :: "call list \<Rightarrow> MemStorage \<Rightarrow> ret list \<times> MemStorage" where
  "run [] s = ([], s)"
| "run (c # cs) s =
     (let (r, s') = exec c s;
          (rs, s'') = run cs s'
      in (r # rs, s''))"

text \<open>The identifiers that the creates of one entity type returned during a history.\<close>

definition createOf :: "call \<Rightarrow> entity option" where
  "createOf c =
     (case c of
        CreateUser _ _ \<Rightarrow> Some User
      | CreateSchoolYear _ _ \<Rightarrow> Some SchoolYear
      | CreateCourse _ _ \<Rightarrow> Some Course
      | CreateClass _ _ \<Rightarrow> Some Class
      | CreateStudent _ _ \<Rightarrow> Some Student
      | CreateEnrollment _ _ \<Rightarrow> Some Enrollment
      | CreateAttendance _ _ \<Rightarrow> Some Attendance
      | CreatePayment _ _ \<Rightarrow> Some Payment
      | _ \<Rightarrow> None)"

fun returnedId :: "ret \<Rightarrow> int list" where
  "returnedId (Created ob) = (case ob ''id'' of Some (Num i) \<Rightarrow> [i] | _ \<Rightarrow> [])"
| "returnedId _ = []"

fun createdIds :: "entity \<Rightarrow> call list \<Rightarrow> ret list \<Rightarrow> int list" where
  "createdIds e (c # cs) (r # rs) =
     (if createOf c = Some e then returnedId r else []) @ createdIds e cs rs"
| "createdIds e _ _ = []"

text \<open>The map and the counter of an entity type.\<close>

fun store :: "entity \<Rightarrow> MemStorage \<Rightarrow> obj jsmap" where
  "store User = users"
| "store SchoolYear = schoolYears"
| "store Course = courses"
| "store Class = classes"
| "store Student = students"
| "store Enrollment = enrollments"
| "store Attendance = attendanceRecords"
| "store Payment = payments"

fun counter :: "entity \<Rightarrow> MemStorage \<Rightarrow> int" where
  "counter User = userId"
| "counter SchoolYear = schoolYearId"
| "counter Course = courseId"
| "counter Class = classId"
| "counter Student = studentId"
| "counter Enrollment = enrollmentId"
| "counter Attendance = attendanceId"
| "counter Payment = paymentId"

section \<open>Notions used in the statements\<close>

text \<open>
  An optional numeric filter \<open>x\<close> on the property \<open>f\<close> constrains an object when it is
  supplied and is a number other than 0 and \<^verbatim>\<open>NaN\<close>, and then the property must be that
  number.
\<close>

definition matches :: "jsnumber option \<Rightarrow> string \<Rightarrow> obj \<Rightarrow> bool" where
  "matches x f ob =
     (case x of
        None \<Rightarrow> True
      | Some NaN \<Rightarrow> True
      | Some (Finite n) \<Rightarrow> n = 0 \<or> propGet ob f = Num n)"

text \<open>
  The calendar day of the date of a stored record, as \<^verbatim>\<open>getAttendance\<close> reads it: the
  UTC date of the time value of a date object, and of \<^verbatim>\<open>new Date(v)\<close> for any other
  value \<open>v\<close>; \<open>None\<close> when that date is invalid.
\<close>

definition dateDay :: "dateParse \<Rightarrow> obj \<Rightarrow> int option" where
  "dateDay parse ob = map_option isoDate (newDate parse (propGet ob ''date''))"

text \<open>The attendance records of a class, in the order of the map.\<close>

definition classRecords :: "int \<Rightarrow> MemStorage \<Rightarrow> obj list" where
  "classRecords c s =
     filter (\<lambda>ob. propGet ob ''classId'' = Num c) (mapValues (attendanceRecords s))"







text \<open>
  The shape that \<^verbatim>\<open>createAttendance\<close> gives the attendance map and that updates with
  payloads without \<^verbatim>\<open>id\<close> keep: the keys are distinct, every object holds its key as
  \<^verbatim>\<open>id\<close>, and every key is below the counter.
\<close>

definition attendanceWf :: "MemStorage \<Rightarrow> bool" where
  "attendanceWf s =
     (distinct (mapKeys (attendanceRecords s)) \<and>
      (\<forall>e \<in> set (attendanceRecords s). snd e ''id'' = Some (Num (fst e)) \<and> fst e < attendanceId s))"

text \<open>The calls of a history whose update payloads for attendance carry no \<^verbatim>\<open>id\<close>.\<close>

fun plainAttendanceUpdate :: "call \<Rightarrow> bool" where
  "plainAttendanceUpdate (UpdateAttendance i p) = (p ''id'' = None)"
| "plainAttendanceUpdate _ = True"






section \<open>Sample data\<close>

text \<open>
  \<^verbatim>\<open>Date.parse\<close> on the few strings that the examples use (date-only ISO strings are
  midnight UTC); every other string is taken not to parse.
\<close>

definition sampleParse :: dateParse where
  "sampleParse str =
     (if str = ''2024-03-04'' then Some 1709510400000
      else if str = ''2024-03-04T10:30:00.000Z'' then Some 1709548200000
      else if str = ''2024-03-05'' then Some 1709596800000
      else None)"

definition sampleCourse :: obj where
  "sampleCourse = [''name'' \<mapsto> Str ''Pentozali'', ''type'' \<mapsto> Str ''dance'',
     ''schoolYearId'' \<mapsto> Num 1, ''monthlyFee'' \<mapsto> Num 20, ''active'' \<mapsto> Bool True]"

definition sampleClass :: obj where
  "sampleClass = [''name'' \<mapsto> Str ''A1'', ''courseId'' \<mapsto> Num 1, ''level'' \<mapsto> Str ''beginner'']"

definition sampleStudent :: obj where
  "sampleStudent = [''firstName'' \<mapsto> Str ''Maria'', ''lastName'' \<mapsto> Str ''Kalergi'',
     ''phone'' \<mapsto> Str ''6900000000'']"

definition sampleStudent2 :: obj where
  "sampleStudent2 = [''firstName'' \<mapsto> Str ''Nikos'', ''lastName'' \<mapsto> Str ''Daskalakis'',
     ''phone'' \<mapsto> Str ''6911111111'']"

definition sampleEnrollment :: obj where
  "sampleEnrollment = [''studentId'' \<mapsto> Num 1, ''classId'' \<mapsto> Num 1, ''active'' \<mapsto> Bool True]"

text \<open>Student 1 in class 2 on 2024-03-04, absent; the date is a date object at midnight UTC.\<close>

definition sampleAttendance :: obj where
  "sampleAttendance = [''studentId'' \<mapsto> Num 1, ''classId'' \<mapsto> Num 2,
     ''date'' \<mapsto> DateV (Some 1709510400000), ''present'' \<mapsto> Bool False]"

definition samplePayment :: obj where
  "samplePayment = [''studentId'' \<mapsto> Num 1, ''courseId'' \<mapsto> Num 1, ''amount'' \<mapsto> Num 20,
     ''month'' \<mapsto> Num 3, ''year'' \<mapsto> Num 2024, ''paymentDate'' \<mapsto> Str ''2024-03-04'']"

text \<open>A history: the two creates of the constructor, then one record of every other entity.\<close>

definition sampleHistory :: "call list" where
  "sampleHistory =
     [CreateUser 0 seedUser, CreateSchoolYear 0 seedSchoolYear,
      CreateCourse 10 sampleCourse, CreateClass 20 sampleClass,
      CreateStudent 30 sampleStudent, CreateEnrollment 40 sampleEnrollment,
      CreateAttendance 50 sampleAttendance, CreatePayment 60 samplePayment]"

definition sampleStorage :: MemStorage where
  "sampleStorage = snd (run sampleHistory emptyStorage)"

definition sampleClock :: "nat \<Rightarrow> int" where
  "sampleClock n = 100 + int n"

text \<open>Update payloads: one that names no identifier, one that carries \<^verbatim>\<open>id\<close> and \<^verbatim>\<open>createdAt\<close>.\<close>

definition samplePatch :: obj where
  "samplePatch = [''active'' \<mapsto> Bool False, ''present'' \<mapsto> Bool True]"

definition sampleIdPatch :: obj where
  "sampleIdPatch = [''id'' \<mapsto> Num 99, ''createdAt'' \<mapsto> DateV (Some 7)]"

text \<open>
  A history in three parts: one record of every entity is created (the sample history),
  each is deleted or, where there is no delete, updated or left alone, and a second
  record of every entity is created.
\<close>

definition sampleDeletes :: "call list" where
  "sampleDeletes =
     [DeleteSchoolYear 1, DeleteCourse 1, DeleteClass 1, DeleteStudent 1, DeleteEnrollment 1,
      UpdateAttendance 1 samplePatch, DeletePayment 1]"

definition sampleRecreate :: "call list" where
  "sampleRecreate =
     [CreatePayment 80 samplePayment, CreateUser 81 seedUser,
      CreateSchoolYear 82 seedSchoolYear, CreateCourse 83 sampleCourse,
      CreateClass 84 sampleClass, CreateStudent 85 sampleStudent2,
      CreateEnrollment 86 sampleEnrollment, CreateAttendance 87 sampleAttendance]"

definition sampleChurnAll :: "call list" where
  "sampleChurnAll = sampleHistory @ sampleDeletes @ sampleRecreate"

text \<open>Student 1 in class 2 on 2024-03-04, with the date as the string that the route stores.\<close>

definition sampleAttendanceStr :: obj where
  "sampleAttendanceStr = [''studentId'' \<mapsto> Num 1, ''classId'' \<mapsto> Num 2,
     ''date'' \<mapsto> Str ''2024-03-04'', ''present'' \<mapsto> Bool False]"

definition sampleAttendanceInput :: obj where
  "sampleAttendanceInput = [''studentId'' \<mapsto> Num 1, ''classId'' \<mapsto> Num 2,
     ''date'' \<mapsto> Str ''2024-03-04T10:30:00.000Z'', ''present'' \<mapsto> Bool True]"

definition sampleAttendanceNext :: obj where
  "sampleAttendanceNext = [''studentId'' \<mapsto> Num 1, ''classId'' \<mapsto> Num 2,
     ''date'' \<mapsto> Str ''2024-03-05'', ''present'' \<mapsto> Bool True]"


text \<open>A new storage after one \<^verbatim>\<open>createAttendance\<close> of that record.\<close>

definition sampleStorageStr :: MemStorage where
  "sampleStorageStr = snd (createAttendance 70 sampleAttendanceStr (newMemStorage 0 0))"

text \<open>
  The sample storage after two more attendance records of student 1 in class 2, with
  string dates: the same day as the first record with a time of day, and the next day.
\<close>

definition sampleStorageMixed :: MemStorage where
  "sampleStorageMixed =
     snd (createAttendance 72 sampleAttendanceNext
       (snd (createAttendance 71 sampleAttendanceInput sampleStorage)))"

text \<open>The sample storage after an attendance record of class 2 whose date does not parse.\<close>

definition sampleAttendanceBad :: obj where
  "sampleAttendanceBad = [''studentId'' \<mapsto> Num 3, ''classId'' \<mapsto> Num 2,
     ''date'' \<mapsto> Str ''tomorrow'', ''present'' \<mapsto> Bool True]"

definition sampleStorageBad :: MemStorage where
  "sampleStorageBad = snd (createAttendance 73 sampleAttendanceBad sampleStorage)"



section \<open>Properties\<close>

lemma strictEq_Num [simp]: "strictEq v (Num n) = (v = Num n)"
  by (cases v) auto

lemma ifTruthy_None [simp]: "ifTruthy None f a = a"
  by (simp add: ifTruthy_def)

lemma ifTruthy_zero [simp]: "ifTruthy (Some (Finite 0)) f a = a"
  by (simp add: ifTruthy_def)

lemma ifTruthy_NaN [simp]: "ifTruthy (Some NaN) f a = a"
  by (simp add: ifTruthy_def)

lemma ifTruthy_Some [simp]: "n \<noteq> 0 \<Longrightarrow> ifTruthy (Some (Finite n)) f a = f n a"
  by (simp add: ifTruthy_def)

subsection \<open>The map operations\<close>

lemma mapGet_mapSet: "mapGet (mapSet k v m) k' = (if k' = k then Some v else mapGet m k')"
  by (induction m) (auto simp: mapGet_def)

lemma mapKeys_mapSet: "set (mapKeys (mapSet k v m)) = insert k (set (mapKeys m))"
  by (induction m) (auto simp: mapKeys_def)

lemma mapGet_None_iff: "mapGet m k = None \<longleftrightarrow> k \<notin> set (mapKeys m)"
  by (simp add: mapGet_def mapKeys_def map_of_eq_None_iff)

lemma mapSet_fresh: "k \<notin> set (mapKeys m) \<Longrightarrow> mapSet k v m = m @ [(k, v)]"
  by (induction m) (auto simp: mapKeys_def)

lemma mapKeys_mapSet_present: "k \<in> set (mapKeys m) \<Longrightarrow> mapKeys (mapSet k v m) = mapKeys m"
  by (induction m) (auto simp: mapKeys_def)

lemma fst_mapDelete: "fst (mapDelete k m) = (k \<in> set (mapKeys m))"
  by (simp add: mapDelete_def mapGet_None_iff)

lemma mapKeys_mapDelete: "set (mapKeys (snd (mapDelete k m))) = set (mapKeys m) - {k}"
  by (auto simp: mapDelete_def mapKeys_def)

lemma mapGet_mapDelete: "mapGet (snd (mapDelete k m)) k' = (if k' = k then None else mapGet m k')"
  by (induction m) (auto simp: mapDelete_def mapGet_def)

lemmas create_defs = createUser_def createSchoolYear_def createCourse_def createClass_def
  createStudent_def createEnrollment_def createAttendance_def createPayment_def

lemmas update_defs = updateSchoolYear_def updateCourse_def updateClass_def
  updateStudent_def updateEnrollment_def updateAttendance_def updatePayment_def

lemmas delete_defs = deleteSchoolYear_def deleteCourse_def deleteClass_def
  deleteStudent_def deleteEnrollment_def deletePayment_def

lemmas get_defs = getUser_def getSchoolYear_def getCourse_def getClass_def
  getStudent_def getEnrollment_def getPayment_def

lemma sampleStorage_eq:
  "sampleStorage =
     \<lparr> users = [(1, seedUser(''id'' \<mapsto> Num 1, ''createdAt'' \<mapsto> DateV (Some 0)))],
       schoolYears = [(1, seedSchoolYear(''id'' \<mapsto> Num 1, ''createdAt'' \<mapsto> DateV (Some 0)))],
       courses = [(1, sampleCourse(''id'' \<mapsto> Num 1, ''createdAt'' \<mapsto> DateV (Some 10)))],
       classes = [(1, sampleClass(''id'' \<mapsto> Num 1, ''createdAt'' \<mapsto> DateV (Some 20)))],
       students = [(1, sampleStudent(''id'' \<mapsto> Num 1, ''createdAt'' \<mapsto> DateV (Some 30)))],
       enrollments = [(1, sampleEnrollment(''id'' \<mapsto> Num 1, ''enrolledAt'' \<mapsto> DateV (Some 40)))],
       attendanceRecords = [(1, sampleAttendance(''id'' \<mapsto> Num 1, ''createdAt'' \<mapsto> DateV (Some 50)))],
       payments = [(1, samplePayment(''id'' \<mapsto> Num 1, ''createdAt'' \<mapsto> DateV (Some 60)))],
       userId = 2, schoolYearId = 2, courseId = 2, classId = 2,
       studentId = 2, enrollmentId = 2, attendanceId = 2, paymentId = 2 \<rparr>"
  by (simp add: sampleStorage_def sampleHistory_def emptyStorage_def created_def create_defs Let_def)

subsection \<open>Deleting twice\<close>

lemma delete_twice_schoolYear:
  "getSchoolYear i s \<noteq> None \<Longrightarrow>
     fst (deleteSchoolYear i s) \<and> getSchoolYear i (snd (deleteSchoolYear i s)) = None \<and>
     \<not> fst (deleteSchoolYear i (snd (deleteSchoolYear i s)))"
  by (simp add: getSchoolYear_def deleteSchoolYear_def split_def fst_mapDelete mapGet_mapDelete
      mapGet_None_iff mapKeys_mapDelete)

lemma delete_twice_course:
  "getCourse i s \<noteq> None \<Longrightarrow>
     fst (deleteCourse i s) \<and> getCourse i (snd (deleteCourse i s)) = None \<and>
     \<not> fst (deleteCourse i (snd (deleteCourse i s)))"
  by (simp add: getCourse_def deleteCourse_def split_def fst_mapDelete mapGet_mapDelete
      mapGet_None_iff mapKeys_mapDelete)

lemma delete_twice_class:
  "getClass i s \<noteq> None \<Longrightarrow>
     fst (deleteClass i s) \<and> getClass i (snd (deleteClass i s)) = None \<and>
     \<not> fst (deleteClass i (snd (deleteClass i s)))"
  by (simp add: getClass_def deleteClass_def split_def fst_mapDelete mapGet_mapDelete
      mapGet_None_iff mapKeys_mapDelete)

lemma delete_twice_student:
  "getStudent i s \<noteq> None \<Longrightarrow>
     fst (deleteStudent i s) \<and> getStudent i (snd (deleteStudent i s)) = None \<and>
     \<not> fst (deleteStudent i (snd (deleteStudent i s)))"
  by (simp add: getStudent_def deleteStudent_def split_def fst_mapDelete mapGet_mapDelete
      mapGet_None_iff mapKeys_mapDelete)

lemma delete_twice_enrollment:
  "getEnrollment i s \<noteq> None \<Longrightarrow>
     fst (deleteEnrollment i s) \<and> getEnrollment i (snd (deleteEnrollment i s)) = None \<and>
     \<not> fst (deleteEnrollment i (snd (deleteEnrollment i s)))"
  by (simp add: getEnrollment_def deleteEnrollment_def split_def fst_mapDelete mapGet_mapDelete
      mapGet_None_iff mapKeys_mapDelete)

lemma delete_twice_payment:
  "getPayment i s \<noteq> None \<Longrightarrow>
     fst (deletePayment i s) \<and> getPayment i (snd (deletePayment i s)) = None \<and>
     \<not> fst (deletePayment i (snd (deletePayment i s)))"
  by (simp add: getPayment_def deletePayment_def split_def fst_mapDelete mapGet_mapDelete
      mapGet_None_iff mapKeys_mapDelete)

text \<open>
  Claim C7. For every entity with a \<^verbatim>\<open>delete\<close> method and every identifier present in
  its map, the first \<^verbatim>\<open>delete\<close> returns true, the record can then no longer be
  retrieved, and a second \<^verbatim>\<open>delete\<close> of the same identifier returns false.
\<close>

theorem delete_twice:
  "(getSchoolYear i s \<noteq> None \<longrightarrow>
      fst (deleteSchoolYear i s) \<and> getSchoolYear i (snd (deleteSchoolYear i s)) = None \<and>
      \<not> fst (deleteSchoolYear i (snd (deleteSchoolYear i s)))) \<and>
   (getCourse i s \<noteq> None \<longrightarrow>
      fst (deleteCourse i s) \<and> getCourse i (snd (deleteCourse i s)) = None \<and>
      \<not> fst (deleteCourse i (snd (deleteCourse i s)))) \<and>
   (getClass i s \<noteq> None \<longrightarrow>
      fst (deleteClass i s) \<and> getClass i (snd (deleteClass i s)) = None \<and>
      \<not> fst (deleteClass i (snd (deleteClass i s)))) \<and>
   (getStudent i s \<noteq> None \<longrightarrow>
      fst (deleteStudent i s) \<and> getStudent i (snd (deleteStudent i s)) = None \<and>
      \<not> fst (deleteStudent i (snd (deleteStudent i s)))) \<and>
   (getEnrollment i s \<noteq> None \<longrightarrow>
      fst (deleteEnrollment i s) \<and> getEnrollment i (snd (deleteEnrollment i s)) = None \<and>
      \<not> fst (deleteEnrollment i (snd (deleteEnrollment i s)))) \<and>
   (getPayment i s \<noteq> None \<longrightarrow>
      fst (deletePayment i s) \<and> getPayment i (snd (deletePayment i s)) = None \<and>
      \<not> fst (deletePayment i (snd (deletePayment i s))))"
  using delete_twice_schoolYear [of i s] delete_twice_course [of i s] delete_twice_class [of i s]
    delete_twice_student [of i s] delete_twice_enrollment [of i s] delete_twice_payment [of i s]
  by blast

theorem delete_twice_witness:
  "getSchoolYear 1 sampleStorage \<noteq> None \<and> getCourse 1 sampleStorage \<noteq> None \<and>
   getClass 1 sampleStorage \<noteq> None \<and> getStudent 1 sampleStorage \<noteq> None \<and>
   getEnrollment 1 sampleStorage \<noteq> None \<and> getPayment 1 sampleStorage \<noteq> None \<and>
   fst (deleteSchoolYear 1 sampleStorage) \<and>
   \<not> fst (deleteSchoolYear 1 (snd (deleteSchoolYear 1 sampleStorage))) \<and>
   fst (deleteCourse 1 sampleStorage) \<and>
   \<not> fst (deleteCourse 1 (snd (deleteCourse 1 sampleStorage))) \<and>
   fst (deleteClass 1 sampleStorage) \<and>
   \<not> fst (deleteClass 1 (snd (deleteClass 1 sampleStorage))) \<and>
   fst (deleteStudent 1 sampleStorage) \<and>
   \<not> fst (deleteStudent 1 (snd (deleteStudent 1 sampleStorage))) \<and>
   fst (deleteEnrollment 1 sampleStorage) \<and>
   \<not> fst (deleteEnrollment 1 (snd (deleteEnrollment 1 sampleStorage))) \<and>
   fst (deletePayment 1 sampleStorage) \<and>
   \<not> fst (deletePayment 1 (snd (deletePayment 1 sampleStorage)))"
proof -
  have present:
    "getSchoolYear 1 sampleStorage \<noteq> None" "getCourse 1 sampleStorage \<noteq> None"
    "getClass 1 sampleStorage \<noteq> None" "getStudent 1 sampleStorage \<noteq> None"
    "getEnrollment 1 sampleStorage \<noteq> None" "getPayment 1 sampleStorage \<noteq> None"
    by (simp_all add: sampleStorage_eq get_defs mapGet_def)
  with delete_twice [of 1 sampleStorage] show ?thesis
    by blast
qed

subsection \<open>Bulk creation of students\<close>

lemma createManyLoop_snoc:
  "createManyLoop clock (xs @ [x]) acc s =
     (let (outs, s1) = createManyLoop clock xs acc s;
          (n, s2) = createStudent (clock (length xs)) x s1
      in (outs @ [n], s2))"
  by (induction xs arbitrary: clock acc s) (simp_all add: split_def Let_def)

lemma createMany_length: "length (fst (createManyLoop clock xs acc s)) = length acc + length xs"
  by (induction xs arbitrary: clock acc s) (simp_all add: split_def Let_def)

lemma createMany_counter:
  "studentId (snd (createManyLoop clock xs acc s)) = studentId s + int (length xs)"
  by (induction xs arbitrary: clock acc s) (simp_all add: split_def Let_def createStudent_def)

lemma createMany_step:
  assumes "i < length xs"
  shows "createManyStudents clock (take (Suc i) xs) s =
     (fst (createManyStudents clock (take i xs) s) @
        [fst (createStudent (clock i) (xs ! i) (snd (createManyStudents clock (take i xs) s)))],
      snd (createStudent (clock i) (xs ! i) (snd (createManyStudents clock (take i xs) s))))"
  using assms createManyLoop_snoc [of clock "take i xs" "xs ! i" "[]" s]
  by (simp add: createManyStudents_def take_Suc_conv_app_nth split_def Let_def)

lemma createMany_prefix:
  "i \<le> length xs \<Longrightarrow>
   take i (fst (createManyStudents clock xs s)) = fst (createManyStudents clock (take i xs) s)"
proof (induction xs arbitrary: i rule: rev_induct)
  case Nil
  then show ?case by (simp add: createManyStudents_def)
next
  case (snoc x xs)
  show ?case
  proof (cases "i = length xs + 1")
    case True
    then show ?thesis
      using createMany_length [of clock "xs @ [x]" "[]" s]
      by (simp add: createManyStudents_def)
  next
    case False
    with snoc.prems have le: "i \<le> length xs" by simp
    have "fst (createManyStudents clock (xs @ [x]) s) =
            fst (createManyStudents clock xs s) @
              [fst (createStudent (clock (length xs)) x (snd (createManyStudents clock xs s)))]"
      by (simp add: createManyStudents_def createManyLoop_snoc split_def Let_def)
    moreover have "length (fst (createManyStudents clock xs s)) = length xs"
      using createMany_length [of clock xs "[]" s] by (simp add: createManyStudents_def)
    ultimately show ?thesis
      using le snoc.IH [OF le] by simp
  qed
qed

lemma createMany_nth:
  assumes "i < length xs"
  shows "fst (createManyStudents clock xs s) ! i =
     fst (createStudent (clock i) (xs ! i) (snd (createManyStudents clock (take i xs) s)))"
proof -
  have len: "length (fst (createManyStudents clock xs s)) = length xs"
    using createMany_length [of clock xs "[]" s] by (simp add: createManyStudents_def)
  have "take (Suc i) (fst (createManyStudents clock xs s)) =
          fst (createManyStudents clock (take (Suc i) xs) s)"
    using assms by (intro createMany_prefix) simp
  also have "\<dots> = fst (createManyStudents clock (take i xs) s) @
      [fst (createStudent (clock i) (xs ! i) (snd (createManyStudents clock (take i xs) s)))]"
    using createMany_step [OF assms, of clock s] by simp
  finally have eq: "take (Suc i) (fst (createManyStudents clock xs s)) =
      fst (createManyStudents clock (take i xs) s) @
      [fst (createStudent (clock i) (xs ! i) (snd (createManyStudents clock (take i xs) s)))]" .
  have leni: "length (fst (createManyStudents clock (take i xs) s)) = i"
    using createMany_length [of clock "take i xs" "[]" s] assms
    by (simp add: createManyStudents_def)
  have "fst (createManyStudents clock xs s) ! i =
          take (Suc i) (fst (createManyStudents clock xs s)) ! i"
    by simp
  also have "\<dots> = fst (createStudent (clock i) (xs ! i) (snd (createManyStudents clock (take i xs) s)))"
    unfolding eq using leni by (simp add: nth_append)
  finally show ?thesis .
qed

lemma createStudent_keeps:
  "k \<noteq> studentId s \<Longrightarrow> getStudent k (snd (createStudent now x s)) = getStudent k s"
  by (simp add: createStudent_def Let_def getStudent_def mapGet_mapSet)

lemma createManyLoop_keeps:
  "k < studentId s \<Longrightarrow> getStudent k (snd (createManyLoop clock xs acc s)) = getStudent k s"
proof (induction xs arbitrary: clock acc s)
  case Nil
  show ?case by simp
next
  case (Cons x xs)
  have "studentId (snd (createStudent (clock 0) x s)) = studentId s + 1"
    by (simp add: createStudent_def Let_def)
  with Cons.prems have "k < studentId (snd (createStudent (clock 0) x s))"
    by simp
  then have "getStudent k (snd (createManyLoop (\<lambda>n. clock (Suc n)) xs
                 (acc @ [fst (createStudent (clock 0) x s)]) (snd (createStudent (clock 0) x s)))) =
             getStudent k (snd (createStudent (clock 0) x s))"
    by (rule Cons.IH)
  with Cons.prems show ?case
    by (simp add: split_def Let_def createStudent_keeps)
qed

lemma createManyLoop_append:
  "snd (createManyLoop clock (xs @ ys) acc s) =
     snd (createManyLoop (\<lambda>n. clock (length xs + n)) ys
            (fst (createManyLoop clock xs acc s)) (snd (createManyLoop clock xs acc s)))"
  by (induction xs arbitrary: clock acc s) (simp_all add: split_def Let_def)

lemma createMany_final:
  assumes "i < length xs"
  shows "getStudent (studentId s + int i) (snd (createManyStudents clock xs s)) =
         getStudent (studentId s + int i) (snd (createManyStudents clock (take (Suc i) xs) s))"
proof -
  let ?s1 = "snd (createManyLoop clock (take (Suc i) xs) [] s)"
  have ctr: "studentId ?s1 = studentId s + int (Suc i)"
    using createMany_counter [of clock "take (Suc i) xs" "[]" s] assms
    by (simp add: min_def)
  have "snd (createManyLoop clock (take (Suc i) xs @ drop (Suc i) xs) [] s) =
        snd (createManyLoop (\<lambda>n. clock (length (take (Suc i) xs) + n)) (drop (Suc i) xs)
               (fst (createManyLoop clock (take (Suc i) xs) [] s)) ?s1)"
    by (rule createManyLoop_append)
  moreover have "getStudent (studentId s + int i)
      (snd (createManyLoop (\<lambda>n. clock (length (take (Suc i) xs) + n)) (drop (Suc i) xs)
               (fst (createManyLoop clock (take (Suc i) xs) [] s)) ?s1)) =
      getStudent (studentId s + int i) ?s1"
    using ctr by (intro createManyLoop_keeps) simp
  ultimately show ?thesis
    by (simp add: createManyStudents_def)
qed

text \<open>
  Claim C8. \<^verbatim>\<open>createManyStudents\<close> returns as many records as it was given inputs, and
  the record at position \<open>i\<close> is the one that \<^verbatim>\<open>createStudent\<close> returns for the input at
  position \<open>i\<close> on the storage left by the inputs before it: that input with the next
  identifier and the clock reading of its round. Each record is stored under its own
  identifier and is still there when the call returns.
\<close>

theorem createManyStudents_in_order:
  "length (fst (createManyStudents clock xs s)) = length xs \<and>
   (\<forall>i < length xs.
      createStudent (clock i) (xs ! i) (snd (createManyStudents clock (take i xs) s)) =
        (fst (createManyStudents clock xs s) ! i,
         snd (createManyStudents clock (take (Suc i) xs) s)) \<and>
      fst (createManyStudents clock xs s) ! i =
        (xs ! i)(''id'' \<mapsto> Num (studentId s + int i), ''createdAt'' \<mapsto> DateV (Some (clock i))) \<and>
      getStudent (studentId s + int i) (snd (createManyStudents clock xs s)) =
        Some (fst (createManyStudents clock xs s) ! i))"
proof (intro conjI allI impI)
  show "length (fst (createManyStudents clock xs s)) = length xs"
    using createMany_length [of clock xs "[]" s] by (simp add: createManyStudents_def)
next
  fix i assume i: "i < length xs"
  show "createStudent (clock i) (xs ! i) (snd (createManyStudents clock (take i xs) s)) =
        (fst (createManyStudents clock xs s) ! i,
         snd (createManyStudents clock (take (Suc i) xs) s))"
    using createMany_nth [OF i, of clock s] createMany_step [OF i, of clock s]
    by (simp add: prod_eq_iff)
  have ctr: "studentId (snd (createManyStudents clock (take i xs) s)) = studentId s + int i"
    using createMany_counter [of clock "take i xs" "[]" s] i
    by (simp add: createManyStudents_def)
  show "fst (createManyStudents clock xs s) ! i =
        (xs ! i)(''id'' \<mapsto> Num (studentId s + int i), ''createdAt'' \<mapsto> DateV (Some (clock i)))"
    using createMany_nth [OF i, of clock s] ctr
    by (simp add: createStudent_def Let_def)
  have "getStudent (studentId s + int i) (snd (createManyStudents clock (take (Suc i) xs) s)) =
        Some (fst (createManyStudents clock xs s) ! i)"
    using createMany_nth [OF i, of clock s] createMany_step [OF i, of clock s] ctr
    by (simp add: createStudent_def Let_def getStudent_def mapGet_mapSet)
  then show "getStudent (studentId s + int i) (snd (createManyStudents clock xs s)) =
        Some (fst (createManyStudents clock xs s) ! i)"
    using createMany_final [OF i, of s clock] by simp
qed

theorem createManyStudents_in_order_witness:
  "fst (createManyStudents sampleClock [sampleStudent, sampleStudent2] sampleStorage) ! 1 =
     sampleStudent2(''id'' \<mapsto> Num 3, ''createdAt'' \<mapsto> DateV (Some 101)) \<and>
   getStudent 3 (snd (createManyStudents sampleClock [sampleStudent, sampleStudent2] sampleStorage)) =
     Some (sampleStudent2(''id'' \<mapsto> Num 3, ''createdAt'' \<mapsto> DateV (Some 101))) \<and>
   length (fst (createManyStudents sampleClock [sampleStudent, sampleStudent2] sampleStorage)) = 2"
proof -
  let ?out = "fst (createManyStudents sampleClock [sampleStudent, sampleStudent2] sampleStorage)"
  have one: "(1::nat) < length [sampleStudent, sampleStudent2]"
    by simp
  have ctr: "studentId sampleStorage + int 1 = 3" "sampleClock 1 = 101"
    by (simp_all add: sampleStorage_eq sampleClock_def)
  from createManyStudents_in_order [of sampleClock "[sampleStudent, sampleStudent2]" sampleStorage] one
  have "length ?out = length [sampleStudent, sampleStudent2]"
    and "?out ! 1 = ([sampleStudent, sampleStudent2] ! 1)
          (''id'' \<mapsto> Num (studentId sampleStorage + int 1),
           ''createdAt'' \<mapsto> DateV (Some (sampleClock 1)))"
    and "getStudent (studentId sampleStorage + int 1)
          (snd (createManyStudents sampleClock [sampleStudent, sampleStudent2] sampleStorage)) =
         Some (?out ! 1)"
    by blast+
  then show ?thesis
    unfolding ctr by simp
qed

subsection \<open>The filter value 0\<close>

text \<open>
  Claim C10. In every list method with optional numeric filters, the filter value 0 acts
  as the omitted filter: \<^verbatim>\<open>getCourses(0)\<close> returns every course, and the same holds for
  the filter of \<^verbatim>\<open>getClasses\<close>, both filters of \<^verbatim>\<open>getEnrollments\<close>, the class filter of
  \<^verbatim>\<open>getStudentAttendance\<close> and the four filters of \<^verbatim>\<open>getPayments\<close>.
\<close>

theorem zero_filter_is_no_filter:
  "getCourses (Some (Finite 0)) s = getCourses None s \<and>
   getCourses (Some (Finite 0)) s = mapValues (courses s) \<and>
   getClasses (Some (Finite 0)) s = getClasses None s \<and>
   getEnrollments (Some (Finite 0)) c s = getEnrollments None c s \<and>
   getEnrollments a (Some (Finite 0)) s = getEnrollments a None s \<and>
   getStudentAttendance i (Some (Finite 0)) s = getStudentAttendance i None s \<and>
   getPayments (Some (Finite 0)) pc pm py s = getPayments None pc pm py s \<and>
   getPayments ps (Some (Finite 0)) pm py s = getPayments ps None pm py s \<and>
   getPayments ps pc (Some (Finite 0)) py s = getPayments ps pc None py s \<and>
   getPayments ps pc pm (Some (Finite 0)) s = getPayments ps pc pm None s"
  by (simp add: getCourses_def getClasses_def getEnrollments_def getStudentAttendance_def
      getPayments_def)

theorem zero_filter_is_no_filter_witness:
  "getCourses (Some (Finite 0)) sampleStorage =
     [sampleCourse(''id'' \<mapsto> Num 1, ''createdAt'' \<mapsto> DateV (Some 10))] \<and>
   getPayments (Some (Finite 1)) None (Some (Finite 0)) (Some (Finite 2024)) sampleStorage =
     getPayments (Some (Finite 1)) None None (Some (Finite 2024)) sampleStorage"
proof -
  have stored: "mapValues (courses sampleStorage) =
      [sampleCourse(''id'' \<mapsto> Num 1, ''createdAt'' \<mapsto> DateV (Some 10))]"
    by (simp add: sampleStorage_eq mapValues_def)
  from zero_filter_is_no_filter
    [where s = sampleStorage and ps = "Some (Finite 1)" and pc = None and py = "Some (Finite 2024)"]
  have all: "getCourses (Some (Finite 0)) sampleStorage = mapValues (courses sampleStorage)"
    and month: "getPayments (Some (Finite 1)) None (Some (Finite 0)) (Some (Finite 2024)) sampleStorage =
      getPayments (Some (Finite 1)) None None (Some (Finite 2024)) sampleStorage"
    by blast+
  show ?thesis
    unfolding all stored using month by simp
qed

subsection \<open>Updates and list filters\<close>

lemma matches_None [simp]: "matches None f ob"
  by (simp add: matches_def)

lemma matches_NaN [simp]: "matches (Some NaN) f ob"
  by (simp add: matches_def)

lemma matches_Some [simp]: "matches (Some (Finite n)) f ob = (n = 0 \<or> propGet ob f = Num n)"
  by (simp add: matches_def)

lemma filter_ifTruthy:
  "ifTruthy x (\<lambda>n. filter (\<lambda>ob. propGet ob f = Num n)) xs = filter (matches x f) xs"
proof (cases x)
  case None
  then show ?thesis by simp
next
  case (Some y)
  then show ?thesis
    by (cases y) (auto simp: ifTruthy_def intro!: filter_cong)
qed

lemma filter_ifTruthy_filter:
  "ifTruthy x (\<lambda>n. filter (\<lambda>ob. propGet ob f = Num n)) (filter P xs) =
     filter (\<lambda>ob. P ob \<and> matches x f ob) xs"
  by (simp add: filter_ifTruthy conj_commute)

lemma spread_absent: "p k = None \<Longrightarrow> spread r p k = r k"
  by (simp add: spread_def map_add_def)

lemma spread_present: "p k = Some v \<Longrightarrow> spread r p k = Some v"
  by (simp add: spread_def)

lemma updateSchoolYear_present:
  "getSchoolYear i s = Some r \<Longrightarrow>
   fst (updateSchoolYear i p s) = Some (spread r p) \<and>
   getSchoolYear i (snd (updateSchoolYear i p s)) = Some (spread r p)"
  by (simp add: getSchoolYear_def updateSchoolYear_def Let_def mapGet_mapSet)

lemma updateCourse_present:
  "getCourse i s = Some r \<Longrightarrow>
   fst (updateCourse i p s) = Some (spread r p) \<and>
   getCourse i (snd (updateCourse i p s)) = Some (spread r p)"
  by (simp add: getCourse_def updateCourse_def Let_def mapGet_mapSet)

lemma updateClass_present:
  "getClass i s = Some r \<Longrightarrow>
   fst (updateClass i p s) = Some (spread r p) \<and>
   getClass i (snd (updateClass i p s)) = Some (spread r p)"
  by (simp add: getClass_def updateClass_def Let_def mapGet_mapSet)

lemma updateStudent_present:
  "getStudent i s = Some r \<Longrightarrow>
   fst (updateStudent i p s) = Some (spread r p) \<and>
   getStudent i (snd (updateStudent i p s)) = Some (spread r p)"
  by (simp add: getStudent_def updateStudent_def Let_def mapGet_mapSet)

lemma updateEnrollment_present:
  "getEnrollment i s = Some r \<Longrightarrow>
   fst (updateEnrollment i p s) = Some (spread r p) \<and>
   getEnrollment i (snd (updateEnrollment i p s)) = Some (spread r p)"
  by (simp add: getEnrollment_def updateEnrollment_def Let_def mapGet_mapSet)

lemma updateAttendance_present:
  "mapGet (attendanceRecords s) i = Some r \<Longrightarrow>
   fst (updateAttendance i p s) = Some (spread r p) \<and>
   mapGet (attendanceRecords (snd (updateAttendance i p s))) i = Some (spread r p)"
  by (simp add: updateAttendance_def Let_def mapGet_mapSet)

lemma updatePayment_present:
  "getPayment i s = Some r \<Longrightarrow>
   fst (updatePayment i p s) = Some (spread r p) \<and>
   getPayment i (snd (updatePayment i p s)) = Some (spread r p)"
  by (simp add: getPayment_def updatePayment_def Let_def mapGet_mapSet)

text \<open>
  Claim C2, as amended. For each of the seven entities with an \<^verbatim>\<open>update\<close> method and
  every record \<open>r\<close> stored under \<open>i\<close>, \<^verbatim>\<open>update(i, p)\<close> returns and stores under \<open>i\<close> the
  merge of \<open>r\<close> and \<open>p\<close>: every property absent from \<open>p\<close> keeps the value it has in \<open>r\<close>
  (the identifier and the creation timestamp too, when \<open>p\<close> does not carry them), and
  every property present in \<open>p\<close> takes the value of \<open>p\<close>.
\<close>

theorem update_merges_payload:
  "(getSchoolYear i s = Some r1 \<longrightarrow>
      fst (updateSchoolYear i p s) = Some (spread r1 p) \<and>
      getSchoolYear i (snd (updateSchoolYear i p s)) = Some (spread r1 p)) \<and>
   (getCourse i s = Some r2 \<longrightarrow>
      fst (updateCourse i p s) = Some (spread r2 p) \<and>
      getCourse i (snd (updateCourse i p s)) = Some (spread r2 p)) \<and>
   (getClass i s = Some r3 \<longrightarrow>
      fst (updateClass i p s) = Some (spread r3 p) \<and>
      getClass i (snd (updateClass i p s)) = Some (spread r3 p)) \<and>
   (getStudent i s = Some r4 \<longrightarrow>
      fst (updateStudent i p s) = Some (spread r4 p) \<and>
      getStudent i (snd (updateStudent i p s)) = Some (spread r4 p)) \<and>
   (getEnrollment i s = Some r5 \<longrightarrow>
      fst (updateEnrollment i p s) = Some (spread r5 p) \<and>
      getEnrollment i (snd (updateEnrollment i p s)) = Some (spread r5 p)) \<and>
   (mapGet (attendanceRecords s) i = Some r6 \<longrightarrow>
      fst (updateAttendance i p s) = Some (spread r6 p) \<and>
      mapGet (attendanceRecords (snd (updateAttendance i p s))) i = Some (spread r6 p)) \<and>
   (getPayment i s = Some r7 \<longrightarrow>
      fst (updatePayment i p s) = Some (spread r7 p) \<and>
      getPayment i (snd (updatePayment i p s)) = Some (spread r7 p)) \<and>
   (\<forall>k. p k = None \<longrightarrow> spread r p k = r k) \<and>
   (\<forall>k v. p k = Some v \<longrightarrow> spread r p k = Some v)"
  using updateSchoolYear_present [of i s r1 p] updateCourse_present [of i s r2 p]
    updateClass_present [of i s r3 p] updateStudent_present [of i s r4 p]
    updateEnrollment_present [of i s r5 p] updateAttendance_present [of s i r6 p]
    updatePayment_present [of i s r7 p] spread_absent [of p _ r] spread_present [of p _ _ r]
  by blast

text \<open>
  Claim C4, as amended. The list methods without filter arguments return every record
  of the map. Every optional filter that is supplied with a number other than 0 and
  \<^verbatim>\<open>NaN\<close> keeps exactly the records whose property equals that number, several filters
  are combined by conjunction, and a filter that is omitted, 0 or \<^verbatim>\<open>NaN\<close> constrains
  nothing. The required arguments of the two attendance lists are always compared.
  The claim as it stood fails on the supplied values 0 and \<^verbatim>\<open>NaN\<close>: the sample course,
  whose school year is 1, is listed for either.
\<close>

theorem list_filters:
  "getSchoolYears s = mapValues (schoolYears s) \<and>
   getStudents s = mapValues (students s) \<and>
   getCourses schoolYear s = filter (matches schoolYear ''schoolYearId'') (mapValues (courses s)) \<and>
   getClasses course s = filter (matches course ''courseId'') (mapValues (classes s)) \<and>
   getEnrollments student cls s =
     filter (\<lambda>ob. matches student ''studentId'' ob \<and> matches cls ''classId'' ob)
       (mapValues (enrollments s)) \<and>
   getStudentAttendance i cls s =
     filter (\<lambda>ob. propGet ob ''studentId'' = Num i \<and> matches cls ''classId'' ob)
       (mapValues (attendanceRecords s)) \<and>
   getAttendance parse j None s =
     Inr (filter (\<lambda>ob. propGet ob ''classId'' = Num j) (mapValues (attendanceRecords s))) \<and>
   getPayments student course month year s =
     filter (\<lambda>ob. matches student ''studentId'' ob \<and> matches course ''courseId'' ob \<and>
                  matches month ''month'' ob \<and> matches year ''year'' ob)
       (mapValues (payments s))"
  by (simp add: getSchoolYears_def getStudents_def getCourses_def getClasses_def
      getEnrollments_def getStudentAttendance_def getAttendance_def getPayments_def
      filter_ifTruthy filter_ifTruthy_filter)

theorem update_merges_payload_witness:
  "getSchoolYear 1 sampleStorage =
     Some (seedSchoolYear(''id'' \<mapsto> Num 1, ''createdAt'' \<mapsto> DateV (Some 0))) \<and>
   getCourse 1 sampleStorage =
     Some (sampleCourse(''id'' \<mapsto> Num 1, ''createdAt'' \<mapsto> DateV (Some 10))) \<and>
   getClass 1 sampleStorage =
     Some (sampleClass(''id'' \<mapsto> Num 1, ''createdAt'' \<mapsto> DateV (Some 20))) \<and>
   getStudent 1 sampleStorage =
     Some (sampleStudent(''id'' \<mapsto> Num 1, ''createdAt'' \<mapsto> DateV (Some 30))) \<and>
   getEnrollment 1 sampleStorage =
     Some (sampleEnrollment(''id'' \<mapsto> Num 1, ''enrolledAt'' \<mapsto> DateV (Some 40))) \<and>
   mapGet (attendanceRecords sampleStorage) 1 =
     Some (sampleAttendance(''id'' \<mapsto> Num 1, ''createdAt'' \<mapsto> DateV (Some 50))) \<and>
   getPayment 1 sampleStorage =
     Some (samplePayment(''id'' \<mapsto> Num 1, ''createdAt'' \<mapsto> DateV (Some 60))) \<and>
   samplePatch ''name'' = None \<and> samplePatch ''active'' = Some (Bool False) \<and>
   getSchoolYear 1 (snd (updateSchoolYear 1 samplePatch sampleStorage)) =
     Some (spread (seedSchoolYear(''id'' \<mapsto> Num 1, ''createdAt'' \<mapsto> DateV (Some 0))) samplePatch) \<and>
   getCourse 1 (snd (updateCourse 1 samplePatch sampleStorage)) =
     Some (spread (sampleCourse(''id'' \<mapsto> Num 1, ''createdAt'' \<mapsto> DateV (Some 10))) samplePatch) \<and>
   getClass 1 (snd (updateClass 1 samplePatch sampleStorage)) =
     Some (spread (sampleClass(''id'' \<mapsto> Num 1, ''createdAt'' \<mapsto> DateV (Some 20))) samplePatch) \<and>
   getStudent 1 (snd (updateStudent 1 samplePatch sampleStorage)) =
     Some (spread (sampleStudent(''id'' \<mapsto> Num 1, ''createdAt'' \<mapsto> DateV (Some 30))) samplePatch) \<and>
   getEnrollment 1 (snd (updateEnrollment 1 samplePatch sampleStorage)) =
     Some (spread (sampleEnrollment(''id'' \<mapsto> Num 1, ''enrolledAt'' \<mapsto> DateV (Some 40))) samplePatch) \<and>
   mapGet (attendanceRecords (snd (updateAttendance 1 samplePatch sampleStorage))) 1 =
     Some (spread (sampleAttendance(''id'' \<mapsto> Num 1, ''createdAt'' \<mapsto> DateV (Some 50))) samplePatch) \<and>
   getPayment 1 (snd (updatePayment 1 samplePatch sampleStorage)) =
     Some (spread (samplePayment(''id'' \<mapsto> Num 1, ''createdAt'' \<mapsto> DateV (Some 60))) samplePatch) \<and>
   spread (seedSchoolYear(''id'' \<mapsto> Num 1, ''createdAt'' \<mapsto> DateV (Some 0))) samplePatch ''name'' =
     (seedSchoolYear(''id'' \<mapsto> Num 1, ''createdAt'' \<mapsto> DateV (Some 0))) ''name'' \<and>
   spread (seedSchoolYear(''id'' \<mapsto> Num 1, ''createdAt'' \<mapsto> DateV (Some 0))) samplePatch ''active'' =
     Some (Bool False)"
proof -
  have stored:
    "getSchoolYear 1 sampleStorage =
       Some (seedSchoolYear(''id'' \<mapsto> Num 1, ''createdAt'' \<mapsto> DateV (Some 0)))"
    "getCourse 1 sampleStorage =
       Some (sampleCourse(''id'' \<mapsto> Num 1, ''createdAt'' \<mapsto> DateV (Some 10)))"
    "getClass 1 sampleStorage =
       Some (sampleClass(''id'' \<mapsto> Num 1, ''createdAt'' \<mapsto> DateV (Some 20)))"
    "getStudent 1 sampleStorage =
       Some (sampleStudent(''id'' \<mapsto> Num 1, ''createdAt'' \<mapsto> DateV (Some 30)))"
    "getEnrollment 1 sampleStorage =
       Some (sampleEnrollment(''id'' \<mapsto> Num 1, ''enrolledAt'' \<mapsto> DateV (Some 40)))"
    "mapGet (attendanceRecords sampleStorage) 1 =
       Some (sampleAttendance(''id'' \<mapsto> Num 1, ''createdAt'' \<mapsto> DateV (Some 50)))"
    "getPayment 1 sampleStorage =
       Some (samplePayment(''id'' \<mapsto> Num 1, ''createdAt'' \<mapsto> DateV (Some 60)))"
    by (simp_all add: sampleStorage_eq get_defs mapGet_def)
  have patch: "samplePatch ''name'' = None" "samplePatch ''active'' = Some (Bool False)"
    by (simp_all add: samplePatch_def)
  show ?thesis
    using stored patch
      update_merges_payload [of 1 sampleStorage
        "seedSchoolYear(''id'' \<mapsto> Num 1, ''createdAt'' \<mapsto> DateV (Some 0))" samplePatch
        "sampleCourse(''id'' \<mapsto> Num 1, ''createdAt'' \<mapsto> DateV (Some 10))"
        "sampleClass(''id'' \<mapsto> Num 1, ''createdAt'' \<mapsto> DateV (Some 20))"
        "sampleStudent(''id'' \<mapsto> Num 1, ''createdAt'' \<mapsto> DateV (Some 30))"
        "sampleEnrollment(''id'' \<mapsto> Num 1, ''enrolledAt'' \<mapsto> DateV (Some 40))"
        "sampleAttendance(''id'' \<mapsto> Num 1, ''createdAt'' \<mapsto> DateV (Some 50))"
        "samplePayment(''id'' \<mapsto> Num 1, ''createdAt'' \<mapsto> DateV (Some 60))"
        "seedSchoolYear(''id'' \<mapsto> Num 1, ''createdAt'' \<mapsto> DateV (Some 0))"]
    by blast
qed

theorem update_overwrites_id_counterexample:
  "propGet (the (getSchoolYear 1 sampleStorage)) ''id'' = Num 1 \<and>
   propGet (the (getSchoolYear 1 sampleStorage)) ''createdAt'' = DateV (Some 0) \<and>
   propGet (the (getSchoolYear 1 (snd (updateSchoolYear 1 sampleIdPatch sampleStorage)))) ''id'' =
     Num 99 \<and>
   propGet (the (getSchoolYear 1 (snd (updateSchoolYear 1 sampleIdPatch sampleStorage))))
     ''createdAt'' = DateV (Some 7)"
  by (simp add: sampleStorage_eq getSchoolYear_def updateSchoolYear_def mapGet_def Let_def
      spread_def propGet_def sampleIdPatch_def)

theorem list_filters_witness:
  "getPayments (Some (Finite 1)) None (Some (Finite 3)) (Some (Finite 2024)) sampleStorage =
     [samplePayment(''id'' \<mapsto> Num 1, ''createdAt'' \<mapsto> DateV (Some 60))] \<and>
   getPayments (Some (Finite 1)) None (Some (Finite 4)) (Some (Finite 2024)) sampleStorage = [] \<and>
   getPayments (Some (Finite 1)) (Some NaN) (Some (Finite 3)) None sampleStorage =
     [samplePayment(''id'' \<mapsto> Num 1, ''createdAt'' \<mapsto> DateV (Some 60))] \<and>
   getCourses (Some (Finite 2)) sampleStorage = [] \<and>
   getCourses (Some NaN) sampleStorage =
     [sampleCourse(''id'' \<mapsto> Num 1, ''createdAt'' \<mapsto> DateV (Some 10))]"
  using list_filters [where s = sampleStorage and student = "Some (Finite 1)" and course = None
      and month = "Some (Finite 3)" and year = "Some (Finite 2024)"]
    list_filters [where s = sampleStorage and student = "Some (Finite 1)" and course = None
      and month = "Some (Finite 4)" and year = "Some (Finite 2024)"]
    list_filters [where s = sampleStorage and student = "Some (Finite 1)" and course = "Some NaN"
      and month = "Some (Finite 3)" and year = None]
    list_filters [where s = sampleStorage and schoolYear = "Some (Finite 2)"]
    list_filters [where s = sampleStorage and schoolYear = "Some NaN"]
  by (simp add: sampleStorage_eq mapValues_def propGet_def samplePayment_def sampleCourse_def)

theorem zero_filter_counterexample:
  "sampleCourse(''id'' \<mapsto> Num 1, ''createdAt'' \<mapsto> DateV (Some 10))
     \<in> set (getCourses (Some (Finite 0)) sampleStorage) \<and>
   propGet (sampleCourse(''id'' \<mapsto> Num 1, ''createdAt'' \<mapsto> DateV (Some 10))) ''schoolYearId''
     \<noteq> Num 0 \<and>
   sampleCourse(''id'' \<mapsto> Num 1, ''createdAt'' \<mapsto> DateV (Some 10))
     \<in> set (getCourses (Some NaN) sampleStorage)"
  by (simp add: getCourses_def sampleStorage_eq mapValues_def propGet_def sampleCourse_def)

subsection \<open>Identifiers along a history\<close>

lemma mapKeys_filter_absent: "k \<notin> set (mapKeys m) \<Longrightarrow> filter (\<lambda>e. fst e \<noteq> k) m = m"
  by (induction m) (auto simp: mapKeys_def)

lemma mapGet_SomeD: "mapGet m k = Some v \<Longrightarrow> k \<in> set (mapKeys m)"
  using mapGet_None_iff [of m k] by auto

lemma exec_counter:
  "counter e (snd (exec c s)) = counter e s + (if createOf c = Some e then 1 else 0)"
  by (cases c; cases e)
    (simp_all add: createOf_def created_def updated_def deleted_def create_defs update_defs
      delete_defs Let_def split_def split: option.splits)

lemma exec_returnedId:
  "createOf c = Some e \<Longrightarrow> returnedId (fst (exec c s)) = [counter e s]"
  by (cases c; cases e)
    (simp_all add: createOf_def created_def create_defs Let_def)

lemma exec_keys:
  "set (mapKeys (store e (snd (exec c s)))) \<subseteq>
     set (mapKeys (store e s)) \<union> (if createOf c = Some e then {counter e s} else {})"
  by (cases c; cases e)
    (auto simp: createOf_def created_def updated_def deleted_def create_defs update_defs
      delete_defs Let_def split_def mapKeys_mapSet mapKeys_mapDelete
      split: option.splits dest: mapGet_SomeD)

lemma run_counter_mono: "counter e s \<le> counter e (snd (run cs s))"
proof (induction cs arbitrary: s)
  case Nil
  show ?case by simp
next
  case (Cons c cs)
  have "counter e s \<le> counter e (snd (exec c s))"
    by (simp add: exec_counter)
  also have "\<dots> \<le> counter e (snd (run cs (snd (exec c s))))"
    by (rule Cons.IH)
  finally show ?case
    by (simp add: split_def Let_def)
qed

lemma run_created_lower:
  "i \<in> set (createdIds e cs (fst (run cs s))) \<Longrightarrow> counter e s \<le> i"
proof (induction cs arbitrary: s)
  case Nil
  then show ?case by simp
next
  case (Cons c cs)
  from Cons.prems consider
    (head) "createOf c = Some e" "i \<in> set (returnedId (fst (exec c s)))"
    | (tail) "i \<in> set (createdIds e cs (fst (run cs (snd (exec c s)))))"
    by (auto simp: split_def Let_def split: if_splits)
  then show ?case
  proof cases
    case head
    then show ?thesis by (simp add: exec_returnedId)
  next
    case tail
    then have "counter e (snd (exec c s)) \<le> i" by (rule Cons.IH)
    then show ?thesis by (simp add: exec_counter split: if_splits)
  qed
qed

lemma run_created_sorted: "sorted_wrt (<) (createdIds e cs (fst (run cs s)))"
proof (induction cs arbitrary: s)
  case Nil
  show ?case by simp
next
  case (Cons c cs)
  show ?case
  proof (cases "createOf c = Some e")
    case True
    have "\<forall>i \<in> set (createdIds e cs (fst (run cs (snd (exec c s))))). counter e s < i"
    proof
      fix i assume "i \<in> set (createdIds e cs (fst (run cs (snd (exec c s)))))"
      then have "counter e (snd (exec c s)) \<le> i" by (rule run_created_lower)
      with True show "counter e s < i" by (simp add: exec_counter)
    qed
    with True Cons.IH [of "snd (exec c s)"] show ?thesis
      by (simp add: split_def Let_def exec_returnedId)
  next
    case False
    with Cons.IH [of "snd (exec c s)"] show ?thesis
      by (simp add: split_def Let_def)
  qed
qed

lemma run_keys:
  "set (mapKeys (store e (snd (run cs s)))) \<subseteq>
     set (mapKeys (store e s)) \<union> set (createdIds e cs (fst (run cs s)))"
proof (induction cs arbitrary: s)
  case Nil
  show ?case by simp
next
  case (Cons c cs)
  have "set (mapKeys (store e (snd (run cs (snd (exec c s)))))) \<subseteq>
          set (mapKeys (store e (snd (exec c s)))) \<union>
          set (createdIds e cs (fst (run cs (snd (exec c s)))))"
    by (rule Cons.IH)
  moreover have "set (mapKeys (store e (snd (exec c s)))) \<subseteq>
      set (mapKeys (store e s)) \<union> (if createOf c = Some e then {counter e s} else {})"
    by (rule exec_keys)
  ultimately show ?case
    by (auto simp: split_def Let_def exec_returnedId split: if_splits)
qed

lemma run_append:
  "run (cs @ ds) s =
     (fst (run cs s) @ fst (run ds (snd (run cs s))), snd (run ds (snd (run cs s))))"
  by (induction cs arbitrary: s) (simp_all add: split_def Let_def)

lemma newMemStorage_history:
  "newMemStorage now0 now1 =
     snd (run [CreateUser now0 seedUser, CreateSchoolYear now1 seedSchoolYear] emptyStorage)"
  by (simp add: newMemStorage_def created_def)

lemma not_issued_absent:
  assumes "i \<notin> set (createdIds e cs (fst (run cs emptyStorage)))"
  shows "mapGet (store e (snd (run cs emptyStorage))) i = None"
proof -
  have "set (mapKeys (store e emptyStorage)) = {}"
    by (cases e) (simp_all add: emptyStorage_def mapKeys_def)
  with run_keys [of e cs emptyStorage] assms
  have "i \<notin> set (mapKeys (store e (snd (run cs emptyStorage))))"
    by auto
  then show ?thesis
    by (simp add: mapGet_None_iff)
qed

lemma exec_created:
  "createOf c = Some e \<Longrightarrow>
   \<exists>ob. fst (exec c s) = Created ob \<and> ob ''id'' = Some (Num (counter e s)) \<and>
        mapGet (store e (snd (exec c s))) (counter e s) = Some ob"
  by (cases c; cases e)
    (simp_all add: createOf_def created_def create_defs Let_def mapGet_mapSet)

lemma run_created_upper:
  "i \<in> set (createdIds e cs (fst (run cs s))) \<Longrightarrow> i < counter e (snd (run cs s))"
proof (induction cs arbitrary: s)
  case Nil
  then show ?case by simp
next
  case (Cons c cs)
  from Cons.prems consider
    (head) "createOf c = Some e" "i \<in> set (returnedId (fst (exec c s)))"
    | (tail) "i \<in> set (createdIds e cs (fst (run cs (snd (exec c s)))))"
    by (auto simp: split_def Let_def split: if_splits)
  then show ?case
  proof cases
    case head
    then have "i < counter e (snd (exec c s))"
      by (simp add: exec_returnedId exec_counter)
    also have "\<dots> \<le> counter e (snd (run cs (snd (exec c s))))"
      by (rule run_counter_mono)
    finally show ?thesis
      by (simp add: split_def Let_def)
  next
    case tail
    then have "i < counter e (snd (run cs (snd (exec c s))))"
      by (rule Cons.IH)
    then show ?thesis
      by (simp add: split_def Let_def)
  qed
qed

lemma run_length: "length (fst (run cs s)) = length cs"
  by (induction cs arbitrary: s) (simp_all add: split_def Let_def)

lemma run_created_length:
  "length (createdIds e cs (fst (run cs s))) = length (filter (\<lambda>c. createOf c = Some e) cs)"
  by (induction cs arbitrary: s) (simp_all add: split_def Let_def exec_returnedId)

lemma run_take: "fst (run (take k cs) s) = take k (fst (run cs s))"
proof -
  have "run (take k cs @ drop k cs) s =
      (fst (run (take k cs) s) @ fst (run (drop k cs) (snd (run (take k cs) s))),
       snd (run (drop k cs) (snd (run (take k cs) s))))"
    by (rule run_append)
  then have "fst (run cs s) =
      fst (run (take k cs) s) @ fst (run (drop k cs) (snd (run (take k cs) s)))"
    by simp
  then show ?thesis
    by (simp add: run_length min_def)
qed

lemma run_step:
  assumes "k < length cs"
  shows "fst (run cs s) ! k = fst (exec (cs ! k) (snd (run (take k cs) s)))"
    and "snd (run (take (Suc k) cs) s) = snd (exec (cs ! k) (snd (run (take k cs) s)))"
proof -
  have split: "run (take (Suc k) cs) s =
      (fst (run (take k cs) s) @ [fst (exec (cs ! k) (snd (run (take k cs) s)))],
       snd (exec (cs ! k) (snd (run (take k cs) s))))"
    using assms run_append [of "take k cs" "[cs ! k]" s]
    by (simp add: take_Suc_conv_app_nth split_def Let_def)
  then show "snd (run (take (Suc k) cs) s) = snd (exec (cs ! k) (snd (run (take k cs) s)))"
    by simp
  have "fst (run cs s) ! k = take (Suc k) (fst (run cs s)) ! k"
    by simp
  also have "\<dots> = fst (run (take (Suc k) cs) s) ! k"
    by (simp add: run_take)
  also have "\<dots> = fst (exec (cs ! k) (snd (run (take k cs) s)))"
    using assms by (simp add: split nth_append run_length)
  finally show "fst (run cs s) ! k = fst (exec (cs ! k) (snd (run (take k cs) s)))" .
qed

lemma run_create_at:
  assumes k: "k < length cs" and c: "createOf (cs ! k) = Some e"
  shows "\<exists>ob i. fst (run cs s) ! k = Created ob \<and> ob ''id'' = Some (Num i) \<and>
           (\<forall>j \<in> set (createdIds e (take k cs) (take k (fst (run cs s)))). j < i) \<and>
           mapGet (store e (snd (run (take (Suc k) cs) s))) i = Some ob"
proof -
  let ?before = "snd (run (take k cs) s)"
  from exec_created [OF c, of ?before] obtain ob where ob:
    "fst (exec (cs ! k) ?before) = Created ob" "ob ''id'' = Some (Num (counter e ?before))"
    "mapGet (store e (snd (exec (cs ! k) ?before))) (counter e ?before) = Some ob"
    by blast
  have "\<forall>j \<in> set (createdIds e (take k cs) (take k (fst (run cs s)))). j < counter e ?before"
    using run_created_upper [of _ e "take k cs" s] by (simp add: run_take)
  with ob run_step [OF k, of s] show ?thesis
    by auto
qed

text \<open>
  Claim C5. In every history of calls from the empty maps of the constructor, every
  create returns a record that carries a number as its identifier and is stored under
  it, and this identifier is greater than every identifier that a create of the same
  entity type returned earlier in the history, whatever was deleted or updated in
  between. So the identifiers returned for one entity type are strictly increasing, one
  for each create, and none is handed out twice.
\<close>

theorem created_ids_increase:
  assumes "run cs emptyStorage = (rs, s)"
  shows "sorted_wrt (<) (createdIds e cs rs) \<and>
    length (createdIds e cs rs) = length (filter (\<lambda>c. createOf c = Some e) cs) \<and>
    (\<forall>k < length cs. createOf (cs ! k) = Some e \<longrightarrow>
       (\<exists>ob i. rs ! k = Created ob \<and> ob ''id'' = Some (Num i) \<and>
               (\<forall>j \<in> set (createdIds e (take k cs) (take k rs)). j < i) \<and>
               mapGet (store e (snd (run (take (Suc k) cs) emptyStorage))) i = Some ob))"
proof -
  have rs: "rs = fst (run cs emptyStorage)"
    using assms by simp
  show ?thesis
    unfolding rs
    using run_created_sorted [of e cs emptyStorage] run_created_length [of e cs emptyStorage]
      run_create_at [of _ cs e emptyStorage]
    by blast
qed

lemma createdIds_append:
  "length cs = length rs \<Longrightarrow>
   createdIds e (cs @ cs') (rs @ rs') = createdIds e cs rs @ createdIds e cs' rs'"
  by (induction cs rs rule: list_induct2) simp_all

lemma createdIds_run_append:
  "createdIds e (cs @ ds) (fst (run (cs @ ds) s)) =
     createdIds e cs (fst (run cs s)) @ createdIds e ds (fst (run ds (snd (run cs s))))"
  by (simp add: run_append createdIds_append run_length)

lemma createdIds_no_create: "\<forall>c \<in> set cs. createOf c = None \<Longrightarrow> createdIds e cs rs = []"
proof (induction cs arbitrary: rs)
  case Nil
  show ?case by simp
next
  case (Cons c cs)
  then show ?case by (cases rs) simp_all
qed

lemma sampleHistory_ids:
  "createdIds e sampleHistory (fst (run sampleHistory emptyStorage)) = [1]"
  by (cases e)
    (simp_all add: sampleHistory_def emptyStorage_def created_def create_defs Let_def createOf_def)

lemma sampleDeletes_storage:
  "snd (run sampleDeletes sampleStorage) =
     \<lparr> users = [(1, seedUser(''id'' \<mapsto> Num 1, ''createdAt'' \<mapsto> DateV (Some 0)))],
       schoolYears = [], courses = [], classes = [], students = [], enrollments = [],
       attendanceRecords =
         [(1, spread (sampleAttendance(''id'' \<mapsto> Num 1, ''createdAt'' \<mapsto> DateV (Some 50)))
                samplePatch)],
       payments = [],
       userId = 2, schoolYearId = 2, courseId = 2, classId = 2,
       studentId = 2, enrollmentId = 2, attendanceId = 2, paymentId = 2 \<rparr>"
  by (simp add: sampleDeletes_def sampleStorage_eq updated_def deleted_def updateAttendance_def
      delete_defs mapDelete_def mapGet_def Let_def)

lemma sampleDeletes_ids: "createdIds e sampleDeletes rs = []"
  by (rule createdIds_no_create) (simp add: sampleDeletes_def createOf_def)

lemma sampleRecreate_ids:
  "createdIds e sampleRecreate (fst (run sampleRecreate (snd (run sampleDeletes sampleStorage)))) =
     [2]"
  unfolding sampleDeletes_storage
  by (cases e)
    (simp_all add: sampleRecreate_def created_def create_defs Let_def createOf_def)

lemma sampleChurnAll_ids:
  "createdIds e sampleChurnAll (fst (run sampleChurnAll emptyStorage)) = [1, 2]"
  using sampleHistory_ids [of e] sampleDeletes_ids [of e] sampleRecreate_ids [of e]
  by (simp add: sampleChurnAll_def createdIds_run_append sampleStorage_def)

lemma sampleChurnAll_take: "take 15 sampleChurnAll = sampleHistory @ sampleDeletes"
  by (simp add: sampleChurnAll_def sampleHistory_def sampleDeletes_def)

lemma sampleChurnAll_before:
  "createdIds Payment (take 15 sampleChurnAll)
     (take 15 (fst (run sampleChurnAll emptyStorage))) = [1]"
  using sampleHistory_ids [of Payment] sampleDeletes_ids [of Payment]
  by (simp add: run_take [symmetric] sampleChurnAll_take createdIds_run_append)

theorem created_ids_increase_witness:
  "createdIds User sampleChurnAll (fst (run sampleChurnAll emptyStorage)) = [1, 2] \<and>
   createdIds SchoolYear sampleChurnAll (fst (run sampleChurnAll emptyStorage)) = [1, 2] \<and>
   createdIds Course sampleChurnAll (fst (run sampleChurnAll emptyStorage)) = [1, 2] \<and>
   createdIds Class sampleChurnAll (fst (run sampleChurnAll emptyStorage)) = [1, 2] \<and>
   createdIds Student sampleChurnAll (fst (run sampleChurnAll emptyStorage)) = [1, 2] \<and>
   createdIds Enrollment sampleChurnAll (fst (run sampleChurnAll emptyStorage)) = [1, 2] \<and>
   createdIds Attendance sampleChurnAll (fst (run sampleChurnAll emptyStorage)) = [1, 2] \<and>
   createdIds Payment sampleChurnAll (fst (run sampleChurnAll emptyStorage)) = [1, 2] \<and>
   sorted_wrt (<) (createdIds Payment sampleChurnAll (fst (run sampleChurnAll emptyStorage))) \<and>
   length (filter (\<lambda>c. createOf c = Some Payment) sampleChurnAll) = 2 \<and>
   (\<exists>ob i. fst (run sampleChurnAll emptyStorage) ! 15 = Created ob \<and>
           ob ''id'' = Some (Num i) \<and> 1 < i \<and>
           mapGet (payments (snd (run (take 16 sampleChurnAll) emptyStorage))) i = Some ob)"
proof -
  have hist: "run sampleChurnAll emptyStorage =
      (fst (run sampleChurnAll emptyStorage), snd (run sampleChurnAll emptyStorage))"
    by simp
  have at: "(15::nat) < length sampleChurnAll" "createOf (sampleChurnAll ! 15) = Some Payment"
    by (simp_all add: sampleChurnAll_def sampleHistory_def sampleDeletes_def sampleRecreate_def
        createOf_def)
  from created_ids_increase [OF hist, of Payment] at
  obtain ob i where ob: "fst (run sampleChurnAll emptyStorage) ! 15 = Created ob"
    "ob ''id'' = Some (Num i)"
    "\<forall>j \<in> set (createdIds Payment (take 15 sampleChurnAll)
        (take 15 (fst (run sampleChurnAll emptyStorage)))). j < i"
    "mapGet (store Payment (snd (run (take (Suc 15) sampleChurnAll) emptyStorage))) i = Some ob"
    by blast
  from ob(3) have "1 < i"
    by (simp add: sampleChurnAll_before)
  with ob have last: "\<exists>ob i. fst (run sampleChurnAll emptyStorage) ! 15 = Created ob \<and>
           ob ''id'' = Some (Num i) \<and> 1 < i \<and>
           mapGet (payments (snd (run (take 16 sampleChurnAll) emptyStorage))) i = Some ob"
    by auto
  from created_ids_increase [OF hist, of Payment]
  have "sorted_wrt (<) (createdIds Payment sampleChurnAll (fst (run sampleChurnAll emptyStorage)))"
    and "length (createdIds Payment sampleChurnAll (fst (run sampleChurnAll emptyStorage))) =
         length (filter (\<lambda>c. createOf c = Some Payment) sampleChurnAll)"
    by blast+
  with last show ?thesis
    by (simp add: sampleChurnAll_ids)
qed

lemma updateAttendanceAt_not_a_number:
  "(\<And>i. v \<noteq> Num i) \<Longrightarrow> updateAttendanceAt v r s = (None, s)"
  by (cases v) (auto simp: updateAttendanceAt_def)

text \<open>
  The two bulk methods change the storage as a history of single calls does, also when
  the bulk upsert throws part of the way.
\<close>

lemma createManyLoop_history:
  "\<exists>cs. (\<forall>c \<in> set cs. createOf c = Some Student) \<and>
        snd (createManyLoop clock xs acc s) = snd (run cs s)"
proof (induction xs arbitrary: clock acc s)
  case Nil
  have "(\<forall>c \<in> set []. createOf c = Some Student) \<and>
        snd (createManyLoop clock [] acc s) = snd (run [] s)"
    by simp
  then show ?case by blast
next
  case (Cons x xs)
  obtain cs where cs: "\<forall>c \<in> set cs. createOf c = Some Student"
    "snd (createManyLoop (\<lambda>n. clock (Suc n)) xs (acc @ [fst (createStudent (clock 0) x s)])
            (snd (createStudent (clock 0) x s))) =
     snd (run cs (snd (createStudent (clock 0) x s)))"
    using Cons.IH by blast
  have "(\<forall>c \<in> set (CreateStudent (clock 0) x # cs). createOf c = Some Student) \<and>
        snd (createManyLoop clock (x # xs) acc s) = snd (run (CreateStudent (clock 0) x # cs) s)"
    using cs by (simp add: split_def Let_def created_def createOf_def)
  then show ?case by blast
qed

lemma bulkLoop_history:
  "\<exists>cs. (\<forall>c \<in> set cs. (\<exists>t x. c = CreateAttendance t x) \<or> (\<exists>i x. c = UpdateAttendance i x)) \<and>
        snd (bulkLoop parse clock rs acc s) = snd (run cs s)"
proof (induction rs arbitrary: clock acc s)
  case Nil
  have "(\<forall>c \<in> set []. (\<exists>t x. c = CreateAttendance t x) \<or> (\<exists>i x. c = UpdateAttendance i x)) \<and>
        snd (bulkLoop parse clock [] acc s) = snd (run [] s)"
    by simp
  then show ?case by blast
next
  case (Cons r rs)
  let ?ok = "\<lambda>cs. \<forall>c \<in> set cs. (\<exists>t x. c = CreateAttendance t x) \<or> (\<exists>i x. c = UpdateAttendance i x)"
  show ?case
  proof (cases "findE (sameAttendance parse r) (mapValues (attendanceRecords s))")
    case (Inl e)
    then have "?ok [] \<and> snd (bulkLoop parse clock (r # rs) acc s) = snd (run [] s)"
      by simp
    then show ?thesis by blast
  next
    case (Inr hit)
    show ?thesis
    proof (cases hit)
      case None
      obtain cs where cs: "?ok cs"
        "snd (bulkLoop parse (\<lambda>n. clock (Suc n)) rs (acc @ [fst (createAttendance (clock 0) r s)])
                (snd (createAttendance (clock 0) r s))) =
         snd (run cs (snd (createAttendance (clock 0) r s)))"
        using Cons.IH by blast
      have "?ok (CreateAttendance (clock 0) r # cs) \<and>
            snd (bulkLoop parse clock (r # rs) acc s) = snd (run (CreateAttendance (clock 0) r # cs) s)"
        using cs Inr None by (simp add: split_def Let_def created_def)
      then show ?thesis by blast
    next
      case (Some a)
      show ?thesis
      proof (cases "\<exists>i. propGet a ''id'' = Num i")
        case True
        then obtain i where i: "propGet a ''id'' = Num i"
          by blast
        let ?u = "updateAttendance i r s"
        obtain cs where cs: "?ok cs"
          "snd (bulkLoop parse (\<lambda>n. clock (Suc n)) rs
                 (case fst ?u of None \<Rightarrow> acc | Some upd \<Rightarrow> acc @ [upd]) (snd ?u)) =
           snd (run cs (snd ?u))"
          using Cons.IH by blast
        have "?ok (UpdateAttendance i r # cs) \<and>
              snd (bulkLoop parse clock (r # rs) acc s) = snd (run (UpdateAttendance i r # cs) s)"
          using cs Inr Some i
          by (simp add: split_def Let_def updated_def updateAttendanceAt_def split: option.splits)
        then show ?thesis by blast
      next
        case False
        then have none: "updateAttendanceAt (propGet a ''id'') r s = (None, s)"
          by (intro updateAttendanceAt_not_a_number) blast
        obtain cs where cs: "?ok cs"
          "snd (bulkLoop parse (\<lambda>n. clock (Suc n)) rs acc s) = snd (run cs s)"
          using Cons.IH by blast
        then have "?ok cs \<and> snd (bulkLoop parse clock (r # rs) acc s) = snd (run cs s)"
          using Inr Some none by simp
        then show ?thesis by blast
      qed
    qed
  qed
qed

lemma delete_absent:
  "k \<notin> set (mapKeys m) \<Longrightarrow> mapDelete k m = (False, m)"
  by (simp add: mapDelete_def mapGet_None_iff mapKeys_filter_absent)

text \<open>
  Claim C6. After any history that starts from the empty maps of the constructor (whose
  two seed creates are the first calls of the history of a real storage), an identifier
  that no create of an entity type has returned is not found by that entity's \<^verbatim>\<open>get\<close>
  and \<^verbatim>\<open>update\<close>, which return \<^verbatim>\<open>undefined\<close> and leave the storage as it is, and its
  \<^verbatim>\<open>delete\<close> returns false. No method throws: absence is a value of the result.
\<close>

theorem never_created_not_found:
  assumes "run cs emptyStorage = (rs, s)"
  shows
  "(i \<notin> set (createdIds User cs rs) \<longrightarrow> getUser i s = None) \<and>
   (i \<notin> set (createdIds SchoolYear cs rs) \<longrightarrow>
      getSchoolYear i s = None \<and> updateSchoolYear i p s = (None, s) \<and>
      deleteSchoolYear i s = (False, s)) \<and>
   (i \<notin> set (createdIds Course cs rs) \<longrightarrow>
      getCourse i s = None \<and> updateCourse i p s = (None, s) \<and> deleteCourse i s = (False, s)) \<and>
   (i \<notin> set (createdIds Class cs rs) \<longrightarrow>
      getClass i s = None \<and> updateClass i p s = (None, s) \<and> deleteClass i s = (False, s)) \<and>
   (i \<notin> set (createdIds Student cs rs) \<longrightarrow>
      getStudent i s = None \<and> updateStudent i p s = (None, s) \<and>
      deleteStudent i s = (False, s)) \<and>
   (i \<notin> set (createdIds Enrollment cs rs) \<longrightarrow>
      getEnrollment i s = None \<and> updateEnrollment i p s = (None, s) \<and>
      deleteEnrollment i s = (False, s)) \<and>
   (i \<notin> set (createdIds Attendance cs rs) \<longrightarrow> updateAttendance i p s = (None, s)) \<and>
   (i \<notin> set (createdIds Payment cs rs) \<longrightarrow>
      getPayment i s = None \<and> updatePayment i p s = (None, s) \<and>
      deletePayment i s = (False, s))"
proof -
  have absent: "mapGet (store e s) i = None" if "i \<notin> set (createdIds e cs rs)" for e
    using that not_issued_absent [of i e cs] assms by simp
  have gone: "mapDelete i (store e s) = (False, store e s)" if "i \<notin> set (createdIds e cs rs)" for e
    using absent [OF that] by (simp add: delete_absent mapGet_None_iff)
  show ?thesis
    using absent [of User] absent [of SchoolYear] absent [of Course] absent [of Class]
      absent [of Student] absent [of Enrollment] absent [of Attendance] absent [of Payment]
      gone [of SchoolYear] gone [of Course] gone [of Class]
      gone [of Student] gone [of Enrollment] gone [of Payment]
    by (simp add: get_defs update_defs delete_defs)
qed

theorem never_created_not_found_witness:
  "run sampleHistory emptyStorage = (fst (run sampleHistory emptyStorage), sampleStorage) \<and>
   2 \<notin> set (createdIds User sampleHistory (fst (run sampleHistory emptyStorage))) \<and>
   2 \<notin> set (createdIds SchoolYear sampleHistory (fst (run sampleHistory emptyStorage))) \<and>
   2 \<notin> set (createdIds Course sampleHistory (fst (run sampleHistory emptyStorage))) \<and>
   2 \<notin> set (createdIds Class sampleHistory (fst (run sampleHistory emptyStorage))) \<and>
   2 \<notin> set (createdIds Student sampleHistory (fst (run sampleHistory emptyStorage))) \<and>
   2 \<notin> set (createdIds Enrollment sampleHistory (fst (run sampleHistory emptyStorage))) \<and>
   2 \<notin> set (createdIds Attendance sampleHistory (fst (run sampleHistory emptyStorage))) \<and>
   2 \<notin> set (createdIds Payment sampleHistory (fst (run sampleHistory emptyStorage))) \<and>
   getUser 2 sampleStorage = None \<and>
   getSchoolYear 2 sampleStorage = None \<and>
   updateSchoolYear 2 samplePatch sampleStorage = (None, sampleStorage) \<and>
   deleteSchoolYear 2 sampleStorage = (False, sampleStorage) \<and>
   getCourse 2 sampleStorage = None \<and>
   updateCourse 2 samplePatch sampleStorage = (None, sampleStorage) \<and>
   deleteCourse 2 sampleStorage = (False, sampleStorage) \<and>
   getClass 2 sampleStorage = None \<and>
   updateClass 2 samplePatch sampleStorage = (None, sampleStorage) \<and>
   deleteClass 2 sampleStorage = (False, sampleStorage) \<and>
   getStudent 2 sampleStorage = None \<and>
   updateStudent 2 samplePatch sampleStorage = (None, sampleStorage) \<and>
   deleteStudent 2 sampleStorage = (False, sampleStorage) \<and>
   getEnrollment 2 sampleStorage = None \<and>
   updateEnrollment 2 samplePatch sampleStorage = (None, sampleStorage) \<and>
   deleteEnrollment 2 sampleStorage = (False, sampleStorage) \<and>
   updateAttendance 2 samplePatch sampleStorage = (None, sampleStorage) \<and>
   getPayment 2 sampleStorage = None \<and>
   updatePayment 2 samplePatch sampleStorage = (None, sampleStorage) \<and>
   deletePayment 2 sampleStorage = (False, sampleStorage)"
proof -
  have hist: "run sampleHistory emptyStorage = (fst (run sampleHistory emptyStorage), sampleStorage)"
    by (simp add: sampleStorage_def)
  have ids: "createdIds e sampleHistory (fst (run sampleHistory emptyStorage)) = [1]" for e
    by (cases e)
      (simp_all add: sampleHistory_def emptyStorage_def created_def create_defs Let_def createOf_def)
  show ?thesis
    using hist never_created_not_found [OF hist, of 2 samplePatch]
    by (simp add: ids)
qed

subsection \<open>Attendance by day\<close>

lemma attendanceOnDate_eq:
  "attendanceOnDate parse d ob =
     (case newDate parse (propGet ob ''date'') of
        None \<Rightarrow> Inl RangeError
      | Some t \<Rightarrow> Inr (isoDate t = d))"
  by (cases "propGet ob ''date''")
    (auto simp: attendanceOnDate_def split: option.splits)

lemma filterE_ok:
  "\<forall>x \<in> set xs. p x = Inr (q x) \<Longrightarrow> filterE p xs = Inr (filter q xs)"
  by (induction xs) simp_all

lemma filterE_error:
  "\<exists>x \<in> set xs. p x = Inl e \<Longrightarrow> \<forall>x \<in> set xs. \<forall>e'. p x = Inl e' \<longrightarrow> e' = e \<Longrightarrow>
   filterE p xs = Inl e"
proof (induction xs)
  case Nil
  then show ?case by simp
next
  case (Cons x xs)
  show ?case
  proof (cases "p x")
    case (Inl e')
    with Cons.prems(2) show ?thesis by simp
  next
    case (Inr b)
    with Cons.prems have "\<exists>x \<in> set xs. p x = Inl e" by auto
    with Cons.IH Cons.prems(2) have "filterE p xs = Inl e" by simp
    with Inr show ?thesis by simp
  qed
qed

lemma getAttendance_invalid_query: "getAttendance parse c (Some None) s = Inl RangeError"
  by (simp add: getAttendance_def)

lemma getAttendance_valid:
  assumes "\<forall>ob \<in> set (classRecords c s). dateDay parse ob \<noteq> None"
  shows "getAttendance parse c (Some (Some t)) s =
     Inr (filter (\<lambda>ob. propGet ob ''classId'' = Num c \<and> dateDay parse ob = Some (isoDate t))
            (mapValues (attendanceRecords s)))"
proof -
  have "\<forall>ob \<in> set (classRecords c s).
          attendanceOnDate parse (isoDate t) ob = Inr (dateDay parse ob = Some (isoDate t))"
    using assms by (auto simp: attendanceOnDate_eq dateDay_def split: option.splits)
  then have "filterE (attendanceOnDate parse (isoDate t)) (classRecords c s) =
               Inr (filter (\<lambda>ob. dateDay parse ob = Some (isoDate t)) (classRecords c s))"
    by (rule filterE_ok)
  then show ?thesis
    by (simp add: getAttendance_def classRecords_def)
qed

lemma getAttendance_invalid_stored:
  assumes "\<exists>ob \<in> set (classRecords c s). dateDay parse ob = None"
  shows "getAttendance parse c (Some (Some t)) s = Inl RangeError"
proof -
  have "\<exists>ob \<in> set (classRecords c s). attendanceOnDate parse (isoDate t) ob = Inl RangeError"
    using assms by (auto simp: attendanceOnDate_eq dateDay_def split: option.splits)
  moreover have "\<forall>ob \<in> set (classRecords c s). \<forall>e'.
      attendanceOnDate parse (isoDate t) ob = Inl e' \<longrightarrow> e' = RangeError"
    by (auto simp: attendanceOnDate_eq split: option.splits)
  ultimately have "filterE (attendanceOnDate parse (isoDate t)) (classRecords c s) = Inl RangeError"
    by (rule filterE_error)
  then show ?thesis
    by (simp add: getAttendance_def classRecords_def)
qed

text \<open>
  Claim C9, as amended. Without a date, \<^verbatim>\<open>getAttendance\<close> returns exactly the stored
  records of the class. With a valid query date, and when the date of every stored
  record of the class is a valid date object or a value that \<^verbatim>\<open>new Date\<close> converts to a
  valid date, it returns exactly the records of the class whose date falls on the UTC
  calendar day of the query date, whatever the time of day and whether the stored date
  is a date object or a string. With an invalid query date, or when some record of the
  class has a date that does not convert, the call throws a \<^verbatim>\<open>RangeError\<close>.
\<close>

theorem getAttendance_by_day:
  "getAttendance parse c None s = Inr (classRecords c s) \<and>
   getAttendance parse c (Some None) s = Inl RangeError \<and>
   getAttendance parse c (Some (Some t)) s =
     (if \<forall>ob \<in> set (classRecords c s). dateDay parse ob \<noteq> None
      then Inr (filter (\<lambda>ob. propGet ob ''classId'' = Num c \<and>
                              dateDay parse ob = Some (isoDate t))
                  (mapValues (attendanceRecords s)))
      else Inl RangeError)"
proof -
  have "getAttendance parse c None s = Inr (classRecords c s)"
    by (simp add: getAttendance_def classRecords_def)
  moreover have "getAttendance parse c (Some None) s = Inl RangeError"
    by (rule getAttendance_invalid_query)
  moreover have "getAttendance parse c (Some (Some t)) s =
     (if \<forall>ob \<in> set (classRecords c s). dateDay parse ob \<noteq> None
      then Inr (filter (\<lambda>ob. propGet ob ''classId'' = Num c \<and>
                              dateDay parse ob = Some (isoDate t))
                  (mapValues (attendanceRecords s)))
      else Inl RangeError)"
    using getAttendance_valid [of c s parse t] getAttendance_invalid_stored [of c s parse t]
    by auto
  ultimately show ?thesis
    by blast
qed

lemma sampleStorageMixed_records:
  "attendanceRecords sampleStorageMixed =
     [(1, sampleAttendance(''id'' \<mapsto> Num 1, ''createdAt'' \<mapsto> DateV (Some 50))),
      (2, sampleAttendanceInput(''id'' \<mapsto> Num 2, ''createdAt'' \<mapsto> DateV (Some 71))),
      (3, sampleAttendanceNext(''id'' \<mapsto> Num 3, ''createdAt'' \<mapsto> DateV (Some 72)))]"
  by (simp add: sampleStorageMixed_def sampleStorage_eq createAttendance_def Let_def)

lemma sample_days:
  "dateDay sampleParse (sampleAttendance(''id'' \<mapsto> Num 1, ''createdAt'' \<mapsto> DateV (Some 50))) =
     Some 19786"
  "dateDay sampleParse (sampleAttendanceInput(''id'' \<mapsto> Num 2, ''createdAt'' \<mapsto> DateV (Some 71))) =
     Some 19786"
  "dateDay sampleParse (sampleAttendanceNext(''id'' \<mapsto> Num 3, ''createdAt'' \<mapsto> DateV (Some 72))) =
     Some 19787"
  by (simp_all add: dateDay_def propGet_def sampleAttendance_def sampleAttendanceInput_def
      sampleAttendanceNext_def sampleParse_def isoDate_def msPerDay_def)

lemma sample_classes:
  "propGet (sampleAttendance(''id'' \<mapsto> Num 1, ''createdAt'' \<mapsto> DateV (Some 50))) ''classId'' = Num 2"
  "propGet (sampleAttendanceInput(''id'' \<mapsto> Num 2, ''createdAt'' \<mapsto> DateV (Some 71))) ''classId'' = Num 2"
  "propGet (sampleAttendanceNext(''id'' \<mapsto> Num 3, ''createdAt'' \<mapsto> DateV (Some 72))) ''classId'' = Num 2"
  by (simp_all add: propGet_def sampleAttendance_def sampleAttendanceInput_def
      sampleAttendanceNext_def)

theorem getAttendance_by_day_witness:
  "getAttendance sampleParse 2 (Some (Some 1709530000000)) sampleStorageMixed =
     Inr [sampleAttendance(''id'' \<mapsto> Num 1, ''createdAt'' \<mapsto> DateV (Some 50)),
          sampleAttendanceInput(''id'' \<mapsto> Num 2, ''createdAt'' \<mapsto> DateV (Some 71))] \<and>
   getAttendance sampleParse 2 None sampleStorageMixed =
     Inr [sampleAttendance(''id'' \<mapsto> Num 1, ''createdAt'' \<mapsto> DateV (Some 50)),
          sampleAttendanceInput(''id'' \<mapsto> Num 2, ''createdAt'' \<mapsto> DateV (Some 71)),
          sampleAttendanceNext(''id'' \<mapsto> Num 3, ''createdAt'' \<mapsto> DateV (Some 72))]"
proof -
  have recs: "classRecords 2 sampleStorageMixed =
     [sampleAttendance(''id'' \<mapsto> Num 1, ''createdAt'' \<mapsto> DateV (Some 50)),
      sampleAttendanceInput(''id'' \<mapsto> Num 2, ''createdAt'' \<mapsto> DateV (Some 71)),
      sampleAttendanceNext(''id'' \<mapsto> Num 3, ''createdAt'' \<mapsto> DateV (Some 72))]"
    by (simp add: classRecords_def sampleStorageMixed_records mapValues_def sample_classes)
  have valid: "\<forall>ob \<in> set (classRecords 2 sampleStorageMixed). dateDay sampleParse ob \<noteq> None"
    by (simp add: recs sample_days)
  have day: "isoDate 1709530000000 = 19786"
    by (simp add: isoDate_def msPerDay_def)
  show ?thesis
    using valid getAttendance_by_day [of sampleParse 2 sampleStorageMixed 1709530000000]
    by (simp add: recs day sampleStorageMixed_records mapValues_def sample_classes sample_days)
qed

theorem getAttendance_throws_counterexample:
  "getAttendance sampleParse 2 (Some None) sampleStorage = Inl RangeError \<and>
   getAttendance sampleParse 2 (Some (Some 1709510400000)) sampleStorageBad = Inl RangeError"
  by (simp add: getAttendance_def sampleStorageBad_def sampleStorage_eq createAttendance_def
      Let_def mapValues_def propGet_def sampleAttendance_def sampleAttendanceBad_def
      attendanceOnDate_def sampleParse_def isoDate_def msPerDay_def)

subsection \<open>The match test of the bulk upsert\<close>

lemma sameAttendance_not_a_date:
  assumes "strictEq (propGet a ''studentId'') (propGet r ''studentId'')"
    and "strictEq (propGet a ''classId'') (propGet r ''classId'')"
    and "\<not> instanceofDate (propGet a ''date'')"
  shows "sameAttendance parse r a = Inl TypeError"
  using assms by (cases "propGet a ''date''") (simp_all add: sameAttendance_def)

lemma sampleStorageStr_records:
  "attendanceRecords sampleStorageStr =
     [(1, sampleAttendanceStr(''id'' \<mapsto> Num 1, ''createdAt'' \<mapsto> DateV (Some 70)))]"
  by (simp add: sampleStorageStr_def newMemStorage_def emptyStorage_def createUser_def
      createSchoolYear_def createAttendance_def Let_def)

text \<open>
  Claim C3 says that the match test of \<^verbatim>\<open>bulkUpdateAttendance\<close> compares calendar days
  without faulting, also when a stored date is a string. The code departs from it: the
  match test calls \<^verbatim>\<open>toISOString\<close> on the stored date as it is. On a new storage with one
  attendance record created with the date string \<^verbatim>\<open>"2024-03-04"\<close>, the bulk upsert of an
  input for the same student, class and day throws a \<^verbatim>\<open>TypeError\<close> and leaves the storage
  as it was. \<^verbatim>\<open>getAttendance\<close>, which tests \<^verbatim>\<open>instanceof Date\<close> first, finds the same
  record by its day.
\<close>

theorem bulkUpdateAttendance_string_date_throws:
  "bulkUpdateAttendance sampleParse sampleClock [sampleAttendanceInput] sampleStorageStr =
     (Inl TypeError, sampleStorageStr) \<and>
   getAttendance sampleParse 2 (Some (Some 1709548200000)) sampleStorageStr =
     Inr [sampleAttendanceStr(''id'' \<mapsto> Num 1, ''createdAt'' \<mapsto> DateV (Some 70))]"
  by (simp add: bulkUpdateAttendance_def sampleStorageStr_records mapValues_def
      sameAttendance_def propGet_def sampleAttendanceStr_def sampleAttendanceInput_def
      getAttendance_def attendanceOnDate_def sampleParse_def isoDate_def msPerDay_def)

subsection \<open>The bulk upsert\<close>










lemma mapSet_present_set: "e \<in> set (mapSet k v m) \<Longrightarrow> e = (k, v) \<or> e \<in> set m"
  by (induction m) (auto split: if_splits)














text \<open>
  Every history from the empty maps whose attendance updates carry no \<^verbatim>\<open>id\<close> leaves the
  attendance map in the shape \<open>attendanceWf\<close>.
\<close>

lemma createAttendance_wf:
  assumes "attendanceWf s"
  shows "attendanceWf (snd (createAttendance now x s))"
proof -
  have fresh: "attendanceId s \<notin> set (mapKeys (attendanceRecords s))"
    using assms by (auto simp: attendanceWf_def mapKeys_def)
  show ?thesis
    using assms fresh
    by (auto simp: createAttendance_def Let_def mapSet_fresh [OF fresh] attendanceWf_def mapKeys_def)
qed

lemma updateAttendance_wf:
  assumes "attendanceWf s" and "p ''id'' = None"
  shows "attendanceWf (snd (updateAttendance i p s))"
proof (cases "mapGet (attendanceRecords s) i")
  case None
  with assms show ?thesis by (simp add: updateAttendance_def)
next
  case (Some a)
  have present: "i \<in> set (mapKeys (attendanceRecords s))"
    using Some by (rule mapGet_SomeD)
  have "(i, a) \<in> set (attendanceRecords s)"
    using Some by (simp add: mapGet_def map_of_SomeD)
  with assms have "spread a p ''id'' = Some (Num i)" "i < attendanceId s"
    by (auto simp: attendanceWf_def spread_def map_add_def)
  with assms(1) present Some show ?thesis
    by (auto simp: updateAttendance_def Let_def attendanceWf_def mapKeys_mapSet_present
        dest!: mapSet_present_set)
qed

lemma exec_attendanceWf:
  assumes "attendanceWf s" and "plainAttendanceUpdate c"
  shows "attendanceWf (snd (exec c s))"
proof (cases c)
  case (CreateAttendance now x)
  with assms show ?thesis by (simp add: created_def createAttendance_wf)
next
  case (UpdateAttendance i p)
  with assms show ?thesis by (simp add: updated_def updateAttendance_wf)
qed (use assms in \<open>simp_all add: attendanceWf_def created_def updated_def deleted_def
      create_defs update_defs delete_defs Let_def split_def split: option.splits\<close>)

lemma run_attendanceWf:
  "attendanceWf s \<Longrightarrow> \<forall>c \<in> set cs. plainAttendanceUpdate c \<Longrightarrow>
   attendanceWf (snd (run cs s))"
proof (induction cs arbitrary: s)
  case Nil
  then show ?case by simp
next
  case (Cons c cs)
  from Cons.prems have "attendanceWf (snd (exec c s))"
    by (simp add: exec_attendanceWf)
  with Cons.prems have "attendanceWf (snd (run cs (snd (exec c s))))"
    by (intro Cons.IH) simp_all
  then show ?case
    by (simp add: split_def Let_def)
qed

lemma emptyStorage_attendanceWf: "attendanceWf emptyStorage"
  by (simp add: attendanceWf_def emptyStorage_def mapKeys_def)























end
